theory Spec2Isabelle
  imports Main
begin

section \<open>OATdle: the daily question game of \<^verbatim>\<open>src/script.js\<close>\<close>

subsection \<open>Time values and the calendar of the \<^verbatim>\<open>Date\<close> object\<close>

text \<open>
  The script reads the clock with \<^verbatim>\<open>new Date()\<close> and uses \<^verbatim>\<open>getFullYear\<close>,
  \<^verbatim>\<open>new Date(y, 0, 0)\<close>, \<^verbatim>\<open>getTime\<close>, the difference of two dates and
  \<^verbatim>\<open>toDateString\<close>. These are functions of the platform, not of the repository; they
  are written here after the ECMAScript definitions of the same names. A time value is a
  number of milliseconds since 1970-01-01T00:00Z; \<open>None\<close> stands for the invalid time value
  \<^verbatim>\<open>NaN\<close>.
\<close>

definition msPerDay :: int where
  "msPerDay = 86400000"

definition Day :: "int \<Rightarrow> int" where
  "Day t = t div msPerDay"

definition DaysInYear :: "int \<Rightarrow> int" where
  "DaysInYear y =
     (if y mod 4 \<noteq> 0 then 365
      else if y mod 100 \<noteq> 0 then 366
      else if y mod 400 \<noteq> 0 then 365
      else 366)"

definition DayFromYear :: "int \<Rightarrow> int" where
  "DayFromYear y =
     365 * (y - 1970) + (y - 1969) div 4 - (y - 1901) div 100 + (y - 1601) div 400"

definition TimeFromYear :: "int \<Rightarrow> int" where
  "TimeFromYear y = msPerDay * DayFromYear y"

text \<open>
  ECMAScript defines \<open>YearFromTime t\<close> as the largest \<open>y\<close> with \<open>TimeFromYear y \<le> t\<close>.
  The executable form below estimates the year from the mean length of a Gregorian year
  (146097 days in 400 years) and corrects the estimate by at most one; lemma
  \<open>YearFromTime_iff\<close> shows that it is the year of the ECMAScript definition.
\<close>

definition YearFromTime :: "int \<Rightarrow> int" where
  "YearFromTime t =
     (let d = Day t; y0 = 1970 + (400 * d) div 146097
      in if d < DayFromYear y0 then y0 - 1
         else if DayFromYear (y0 + 1) \<le> d then y0 + 1
         else y0)"

definition InLeapYear :: "int \<Rightarrow> int" where
  "InLeapYear t = (if DaysInYear (YearFromTime t) = 366 then 1 else 0)"

definition DayWithinYear :: "int \<Rightarrow> int" where
  "DayWithinYear t = Day t - DayFromYear (YearFromTime t)"

definition MonthFromTime :: "int \<Rightarrow> int" where
  "MonthFromTime t =
     (let d = DayWithinYear t; l = InLeapYear t
      in if d < 31 then 0
         else if d < 59 + l then 1
         else if d < 90 + l then 2
         else if d < 120 + l then 3
         else if d < 151 + l then 4
         else if d < 181 + l then 5
         else if d < 212 + l then 6
         else if d < 243 + l then 7
         else if d < 273 + l then 8
         else if d < 304 + l then 9
         else if d < 334 + l then 10
         else 11)"

text \<open>The number of days of a year that lie before its month \<open>m\<close> (0 is January).\<close>

definition monthStart :: "int \<Rightarrow> int \<Rightarrow> int" where
  "monthStart m l =
     (if m = 0 then 0
      else if m = 1 then 31
      else if m = 2 then 59 + l
      else if m = 3 then 90 + l
      else if m = 4 then 120 + l
      else if m = 5 then 151 + l
      else if m = 6 then 181 + l
      else if m = 7 then 212 + l
      else if m = 8 then 243 + l
      else if m = 9 then 273 + l
      else if m = 10 then 304 + l
      else 334 + l)"

definition DateFromTime :: "int \<Rightarrow> int" where
  "DateFromTime t = DayWithinYear t - monthStart (MonthFromTime t) (InLeapYear t) + 1"

definition WeekDay :: "int \<Rightarrow> int" where
  "WeekDay t = (Day t + 4) mod 7"

definition MakeDay :: "int \<Rightarrow> int \<Rightarrow> int \<Rightarrow> int" where
  "MakeDay year month date =
     (let ym = year + month div 12;
          mn = month mod 12
      in DayFromYear ym + monthStart mn (if DaysInYear ym = 366 then 1 else 0) + date - 1)"

definition MakeDate :: "int \<Rightarrow> int \<Rightarrow> int" where
  "MakeDate day time = day * msPerDay + time"

definition TimeClip :: "int \<Rightarrow> int option" where
  "TimeClip t = (if \<bar>t\<bar> > 8640000000000000 then None else Some t)"

text \<open>
  The time zone of the browser: the offset from UTC (local minus UTC, in milliseconds)
  that holds before the first transition, and the transitions in the order of time, each
  with the UTC instant from which its offset holds.
\<close>

record timezone =
  base_offset :: int
  transitions :: "(int \<times> int) list"

fun offsetAtUTC :: "int \<Rightarrow> (int \<times> int) list \<Rightarrow> int \<Rightarrow> int" where
  "offsetAtUTC off [] t = off"
| "offsetAtUTC off ((at, off') # rest) t =
     (if t < at then off else offsetAtUTC off' rest t)"

text \<open>
  A local time that a transition repeats or skips is read with the offset before the
  transition, as ECMAScript asks.
\<close>

fun offsetAtLocal :: "int \<Rightarrow> (int \<times> int) list \<Rightarrow> int \<Rightarrow> int" where
  "offsetAtLocal off [] t = off"
| "offsetAtLocal off ((at, off') # rest) t =
     (if t < at + max off off' then off else offsetAtLocal off' rest t)"

definition LocalTime :: "timezone \<Rightarrow> int \<Rightarrow> int" where
  "LocalTime tz t = t + offsetAtUTC (base_offset tz) (transitions tz) t"

definition UTC :: "timezone \<Rightarrow> int \<Rightarrow> int" where
  "UTC tz t = t - offsetAtLocal (base_offset tz) (transitions tz) t"

text \<open>\<^verbatim>\<open>d.getFullYear()\<close> for a valid date \<open>d\<close> with time value \<open>t\<close>.\<close>

definition getFullYear :: "timezone \<Rightarrow> int \<Rightarrow> int" where
  "getFullYear tz t = YearFromTime (LocalTime tz t)"

text \<open>\<^verbatim>\<open>new Date(year, month, date)\<close>: a year from 0 to 99 means 1900 + year.\<close>

definition Date_ymd :: "timezone \<Rightarrow> int \<Rightarrow> int \<Rightarrow> int \<Rightarrow> int option" where
  "Date_ymd tz year month date =
     (let yr = (if 0 \<le> year \<and> year \<le> 99 then 1900 + year else year);
          finalDate = MakeDate (MakeDay yr month date) 0
      in TimeClip (UTC tz finalDate))"

text \<open>
  \<^verbatim>\<open>new Date(value)\<close> for the values a stored timestamp can have: a number, or
  \<^verbatim>\<open>null\<close>, which converts to 0.
\<close>

definition Date_value :: "int option \<Rightarrow> int option" where
  "Date_value v = (case v of None \<Rightarrow> TimeClip 0 | Some t \<Rightarrow> TimeClip t)"

subsection \<open>Numbers as decimal strings\<close>

definition digitChar :: "nat \<Rightarrow> char" where
  "digitChar n = ''0123456789'' ! n"

fun decimal :: "nat \<Rightarrow> string" where
  "decimal n = (if n < 10 then [digitChar n] else decimal (n div 10) @ [digitChar (n mod 10)])"

declare decimal.simps [simp del]

definition ToZeroPaddedDecimalString :: "nat \<Rightarrow> nat \<Rightarrow> string" where
  "ToZeroPaddedDecimalString n minLength =
     replicate (minLength - length (decimal n)) (CHR ''0'') @ decimal n"

text \<open>The string of an integer number, as a template literal inserts it.\<close>

definition numberToString :: "int \<Rightarrow> string" where
  "numberToString i = (if i < 0 then ''-'' @ decimal (nat (- i)) else decimal (nat i))"

definition digitVal :: "char \<Rightarrow> nat" where
  "digitVal c = of_char c - 48"

definition undecimal :: "string \<Rightarrow> nat" where
  "undecimal s = foldl (\<lambda>a c. 10 * a + digitVal c) 0 s"

definition weekdayName :: "int \<Rightarrow> string" where
  "weekdayName w = [''Sun'', ''Mon'', ''Tue'', ''Wed'', ''Thu'', ''Fri'', ''Sat''] ! nat w"

definition monthName :: "int \<Rightarrow> string" where
  "monthName m =
     [''Jan'', ''Feb'', ''Mar'', ''Apr'', ''May'', ''Jun'',
      ''Jul'', ''Aug'', ''Sep'', ''Oct'', ''Nov'', ''Dec''] ! nat m"

definition yearString :: "int \<Rightarrow> string" where
  "yearString yv = (if yv \<ge> 0 then [] else ''-'') @ ToZeroPaddedDecimalString (nat \<bar>yv\<bar>) 4"

text \<open>\<^verbatim>\<open>d.toDateString()\<close>, as in \<^verbatim>\<open>Mon Jul 01 2024\<close>.\<close>

definition toDateString :: "timezone \<Rightarrow> int option \<Rightarrow> string" where
  "toDateString tz tv =
     (case tv of
        None \<Rightarrow> ''Invalid Date''
      | Some t0 \<Rightarrow>
          let t = LocalTime tz t0
          in weekdayName (WeekDay t) @ '' '' @ monthName (MonthFromTime t) @ '' '' @
             ToZeroPaddedDecimalString (nat (DateFromTime t)) 2 @ '' '' @
             yearString (YearFromTime t))"

text \<open>The local calendar date of an instant: year, month (0 is January), day of the month.\<close>

definition localDate :: "timezone \<Rightarrow> int \<Rightarrow> int \<times> int \<times> int" where
  "localDate tz t0 =
     (let t = LocalTime tz t0 in (YearFromTime t, MonthFromTime t, DateFromTime t))"

text \<open>
  \<^verbatim>\<open>String.prototype.toUpperCase\<close> is a function of the platform over all of Unicode.
  The listeners that call it take it as their argument \<open>toUpperCase\<close>, and what is
  proved of them holds for every such function. \<open>asciiUpperCase\<close> is what the function
  does to a string of ASCII characters; it stands for it only in the evaluations on the
  ASCII strings of the sample data.
\<close>

definition upperChar :: "char \<Rightarrow> char" where
  "upperChar c =
     (case map_of (zip ''abcdefghijklmnopqrstuvwxyz'' ''ABCDEFGHIJKLMNOPQRSTUVWXYZ'') c of
        Some u \<Rightarrow> u
      | None \<Rightarrow> c)"

definition asciiUpperCase :: "string \<Rightarrow> string" where
  "asciiUpperCase s = map upperChar s"

subsection \<open>Statistics\<close>

text \<open>
  The module-level object \<^verbatim>\<open>userStats\<close>. Its counters are JavaScript numbers that only
  ever hold small integers (they start at 0 and grow by 1), so they are integers here.
\<close>

record UserStats =
  gamesPlayed :: int
  wins :: int
  currentStreak :: int
  maxStreak :: int

definition initialStats :: UserStats where
  "initialStats = \<lparr>gamesPlayed = 0, wins = 0, currentStreak = 0, maxStreak = 0\<rparr>"

text \<open>
  \<^verbatim>\<open>updateStats(isCorrect)\<close>: the three statements of the source in their order, the
  last one reading the streak that the second has just written.
\<close>

definition updateStats :: "bool \<Rightarrow> UserStats \<Rightarrow> UserStats" where
  "updateStats isCorrect st =
     (let s1 = st\<lparr>gamesPlayed := gamesPlayed st + 1\<rparr>;
          s2 = (if isCorrect
                then (s1\<lparr>wins := wins s1 + 1\<rparr>)\<lparr>currentStreak := currentStreak s1 + 1\<rparr>
                else s1\<lparr>currentStreak := 0\<rparr>)
      in if currentStreak s2 > maxStreak s2
         then s2\<lparr>maxStreak := currentStreak s2\<rparr>
         else s2)"

text \<open>The inequalities the data model asks of a statistics record.\<close>

definition stats_inv :: "UserStats \<Rightarrow> bool" where
  "stats_inv st \<longleftrightarrow>
     0 \<le> gamesPlayed st \<and> 0 \<le> wins st \<and> wins st \<le> gamesPlayed st \<and>
     0 \<le> currentStreak st \<and> currentStreak st \<le> maxStreak st"

text \<open>A sequence of finished games, each with its outcome, applied oldest first.\<close>

fun playAll :: "bool list \<Rightarrow> UserStats \<Rightarrow> UserStats" where
  "playAll [] st = st"
| "playAll (b # bs) st = playAll bs (updateStats b st)"

subsection \<open>Values, questions and the state of the page\<close>

text \<open>
  A JavaScript expression that should yield an object may yield \<^verbatim>\<open>null\<close> or
  \<^verbatim>\<open>undefined\<close>. A property read on either throws a \<^verbatim>\<open>TypeError\<close>.
\<close>

datatype 'a js_value = JSNull | JSUndefined | JSVal 'a

datatype js_error = TypeError

text \<open>
  The remainder operator \<^verbatim>\<open>%\<close> on integers takes the sign of the dividend (the
  script only divides by the length of a non-empty array). An array read at an index
  outside the array yields \<^verbatim>\<open>undefined\<close>.
\<close>

definition js_rem :: "int \<Rightarrow> int \<Rightarrow> int" where
  "js_rem a b = (if a < 0 then - ((- a) mod \<bar>b\<bar>) else a mod \<bar>b\<bar>)"

definition js_index :: "'a list \<Rightarrow> int \<Rightarrow> 'a js_value" where
  "js_index xs i = (if 0 \<le> i \<and> i < int (length xs) then JSVal (xs ! nat i) else JSUndefined)"

text \<open>
  A question record of \<^verbatim>\<open>questions.json\<close>. The options are kept in the order of the
  object's keys, which is the order \<^verbatim>\<open>Object.entries\<close> lists them in.
\<close>

record Question =
  id_q :: int
  subject :: string
  difficulty :: string
  question :: string
  options :: "(string \<times> string) list"
  answer :: string
  explanation :: string

record GameState =
  gameFinished :: bool
  lastPlayedTs :: "int option"
  lastPlayedAnswer :: "string option"

text \<open>The two entries of \<^verbatim>\<open>localStorage\<close>; \<open>None\<close> is an absent key.\<close>

record Storage =
  oatdleStats :: "UserStats option"
  oatdleGameState :: "GameState option"

text \<open>
  The module-level variables, the parts of the document that the handlers write, the
  pending callbacks of the last \<^verbatim>\<open>setTimeout\<close> of \<^verbatim>\<open>handleAnswerSubmission\<close> (each
  holds the \<^verbatim>\<open>isCorrect\<close> of its closure), the messages shown with \<^verbatim>\<open>alert\<close>, the text
  written to the clipboard, and the storage. The style classes of the option elements
  and the countdown's interval timer are not part of the state.
\<close>

record App =
  questions :: "Question list option"
  currentQuestion :: "Question option"
  gameState :: GameState
  userStats :: UserStats
  isAdmin :: bool
  questionSubject :: string
  questionDifficulty :: string
  questionStem :: string
  optionsContainer :: "(string \<times> string) list"
  feedbackText :: string
  explanationText :: string
  explanationShown :: bool
  countdownShown :: bool
  adminModalShown :: bool
  alerts :: "string list"
  clipboard :: "string option"
  pendingFeedback :: "bool list"
  localStorage :: Storage

definition initialGameState :: GameState where
  "initialGameState = \<lparr>gameFinished = False, lastPlayedTs = None, lastPlayedAnswer = None\<rparr>"

text \<open>The page as the script finds it when it starts, over the storage of the browser.\<close>

definition initialApp :: "Storage \<Rightarrow> App" where
  "initialApp st =
     \<lparr>questions = Some [], currentQuestion = None, gameState = initialGameState,
      userStats = initialStats, isAdmin = False,
      questionSubject = [], questionDifficulty = [], questionStem = [],
      optionsContainer = [], feedbackText = [], explanationText = [],
      explanationShown = False, countdownShown = False, adminModalShown = False,
      alerts = [], clipboard = None, pendingFeedback = [], localStorage = st\<rparr>"

subsection \<open>The daily selector\<close>

text \<open>
  \<^verbatim>\<open>getDailyQuestion(questions)\<close>, with the reading of the clock as the argument
  \<open>now\<close>. The difference \<^verbatim>\<open>now - start\<close> is an integer below \<open>2^53\<close> and the day
  count is small, so \<^verbatim>\<open>Math.floor(diff / oneDay)\<close> is the integer quotient. An
  invalid \<^verbatim>\<open>start\<close> makes every later number \<^verbatim>\<open>NaN\<close> and the array read
  \<^verbatim>\<open>undefined\<close>.
\<close>

definition getDailyQuestion :: "timezone \<Rightarrow> int \<Rightarrow> Question list option \<Rightarrow> Question js_value" where
  "getDailyQuestion tz now qso =
     (case qso of
        None \<Rightarrow> JSNull
      | Some qs \<Rightarrow>
          if length qs = 0 then JSNull
          else
            (case Date_ymd tz (getFullYear tz now) 0 0 of
               None \<Rightarrow> JSUndefined
             | Some start \<Rightarrow>
                 let diff = now - start;
                     oneDay = 1000 * 60 * 60 * 24;
                     dayOfYear = diff div oneDay;
                     questionIndex = js_rem dayOfYear (int (length qs))
                 in js_index qs questionIndex))"

subsection \<open>Local storage\<close>

definition saveStats :: "App \<Rightarrow> App" where
  "saveStats s = s\<lparr>localStorage := (localStorage s)\<lparr>oatdleStats := Some (userStats s)\<rparr>\<rparr>"

definition loadStats :: "App \<Rightarrow> App" where
  "loadStats s =
     (case oatdleStats (localStorage s) of
        None \<Rightarrow> s
      | Some stats \<Rightarrow> s\<lparr>userStats := stats\<rparr>)"

definition saveGameState :: "App \<Rightarrow> App" where
  "saveGameState s = s\<lparr>localStorage := (localStorage s)\<lparr>oatdleGameState := Some (gameState s)\<rparr>\<rparr>"

definition loadGameState :: "timezone \<Rightarrow> int \<Rightarrow> App \<Rightarrow> App" where
  "loadGameState tz now s =
     (case oatdleGameState (localStorage s) of
        None \<Rightarrow> s
      | Some savedState \<Rightarrow>
          if toDateString tz (Date_value (lastPlayedTs savedState)) = toDateString tz (Some now)
          then s\<lparr>gameState := savedState\<rparr>
          else s)"

subsection \<open>Game logic\<close>

definition displayQuestion :: "Question js_value \<Rightarrow> App \<Rightarrow> App" where
  "displayQuestion qv s =
     (case qv of
        JSVal q \<Rightarrow>
          s\<lparr>currentQuestion := Some q,
            questionSubject := subject q,
            questionDifficulty := difficulty q,
            questionStem := question q,
            optionsContainer := options q\<rparr>
      | _ \<Rightarrow> s\<lparr>questionStem := ''No question available for today.''\<rparr>)"

text \<open>
  \<^verbatim>\<open>handleAnswerSubmission(selectedAnswer)\<close>. The answer is a string, or \<^verbatim>\<open>null\<close> when
  \<^verbatim>\<open>restoreGameState\<close> passes a stored answer that is \<^verbatim>\<open>null\<close>. The result is the
  exception that the handler threw, if any, with the state as the handler left it.
\<close>

definition handleAnswerSubmission :: "int \<Rightarrow> string option \<Rightarrow> App \<Rightarrow> js_error option \<times> App" where
  "handleAnswerSubmission now selectedAnswer s =
     (if gameFinished (gameState s) then (None, s)
      else
        let s1 = s\<lparr>gameState := (gameState s)\<lparr>gameFinished := True\<rparr>\<rparr>;
            s2 = s1\<lparr>gameState := (gameState s1)\<lparr>lastPlayedTs := Some now\<rparr>\<rparr>;
            s3 = s2\<lparr>gameState := (gameState s2)\<lparr>lastPlayedAnswer := selectedAnswer\<rparr>\<rparr>
        in case currentQuestion s3 of
             None \<Rightarrow> (Some TypeError, s3)
           | Some q \<Rightarrow>
               let correctAnswer = answer q;
                   isCorrect = (selectedAnswer = Some correctAnswer);
                   s4 = s3\<lparr>userStats := updateStats isCorrect (userStats s3)\<rparr>
               in (None, s4\<lparr>pendingFeedback := pendingFeedback s4 @ [isCorrect]\<rparr>))"

text \<open>
  The callback of the last \<^verbatim>\<open>setTimeout\<close> of \<^verbatim>\<open>handleAnswerSubmission\<close>, and the
  firing of the oldest pending one.
\<close>

definition feedbackCallback :: "bool \<Rightarrow> App \<Rightarrow> js_error option \<times> App" where
  "feedbackCallback isCorrect s =
     (let s1 = s\<lparr>feedbackText := (if isCorrect then ''Correct!'' else ''Incorrect!'')\<rparr>
      in case currentQuestion s1 of
           None \<Rightarrow> (Some TypeError, s1)
         | Some q \<Rightarrow>
             let s2 = s1\<lparr>explanationText := explanation q, explanationShown := True\<rparr>;
                 s3 = saveGameState (saveStats s2)
             in (None, s3\<lparr>countdownShown := True\<rparr>))"

definition runFeedbackTimeout :: "App \<Rightarrow> js_error option \<times> App" where
  "runFeedbackTimeout s =
     (case pendingFeedback s of
        [] \<Rightarrow> (None, s)
      | isCorrect # rest \<Rightarrow> feedbackCallback isCorrect (s\<lparr>pendingFeedback := rest\<rparr>))"

definition restoreGameState :: "int \<Rightarrow> App \<Rightarrow> js_error option \<times> App" where
  "restoreGameState now s =
     (if gameFinished (gameState s)
      then let s1 = s\<lparr>gameState := (gameState s)\<lparr>gameFinished := False\<rparr>\<rparr>
           in handleAnswerSubmission now (lastPlayedAnswer (gameState s1)) s1
      else (None, s))"

subsection \<open>Initialization\<close>

text \<open>
  The outcome of \<^verbatim>\<open>fetchQuestions\<close>: the request or the parsing failed, or the document
  was read and its \<^verbatim>\<open>questions\<close> property is an array or is missing.
\<close>

datatype fetch_result = FetchFailed | Fetched "Question list option"

definition fetchQuestions :: "fetch_result \<Rightarrow> App \<Rightarrow> Question list option \<times> App" where
  "fetchQuestions r s =
     (case r of
        Fetched qso \<Rightarrow> (qso, s\<lparr>questions := qso\<rparr>)
      | FetchFailed \<Rightarrow>
          (Some [], s\<lparr>questionStem := ''Failed to load questions. Please try refreshing the page.''\<rparr>))"

text \<open>
  \<^verbatim>\<open>init()\<close> on a freshly loaded page. The clock is read three times: in
  \<^verbatim>\<open>loadGameState\<close> before the questions are fetched, and in \<^verbatim>\<open>getDailyQuestion\<close> and
  \<^verbatim>\<open>restoreGameState\<close> after.
\<close>

definition init ::
  "timezone \<Rightarrow> int \<Rightarrow> fetch_result \<Rightarrow> bool \<Rightarrow> int \<Rightarrow> int \<Rightarrow> Storage \<Rightarrow> js_error option \<times> App" where
  "init tz tLoad r adminParam tSelect tRestore st =
     (let s1 = loadStats (initialApp st);
          s2 = loadGameState tz tLoad s1;
          (loadedQuestions, s3) = fetchQuestions r s2;
          s4 = (if adminParam then s3\<lparr>adminModalShown := True\<rparr> else s3);
          dailyQuestion = getDailyQuestion tz tSelect loadedQuestions;
          s5 = displayQuestion dailyQuestion s4
      in restoreGameState tRestore s5)"

subsection \<open>Event listeners\<close>

text \<open>
  The click listener of the options: \<open>selectedOption\<close> is the \<^verbatim>\<open>data-option\<close> of the
  option element that was clicked, \<open>None\<close> when the click hit no option.
\<close>

definition optionsClick :: "int \<Rightarrow> string option \<Rightarrow> App \<Rightarrow> js_error option \<times> App" where
  "optionsClick now selectedOption s =
     (if selectedOption \<noteq> None \<and> \<not> gameFinished (gameState s)
      then handleAnswerSubmission now selectedOption s
      else (None, s))"

text \<open>
  The key listener of the document, over the platform's \<^verbatim>\<open>toUpperCase\<close>; \<open>eventKey\<close>
  is \<^verbatim>\<open>event.key\<close>.
\<close>

definition keydown ::
  "(string \<Rightarrow> string) \<Rightarrow> int \<Rightarrow> string \<Rightarrow> App \<Rightarrow> js_error option \<times> App" where
  "keydown toUpperCase now eventKey s =
     (if gameFinished (gameState s) then (None, s)
      else
        let key = toUpperCase eventKey
        in if key \<in> set [''A'', ''B'', ''C'', ''D'']
           then handleAnswerSubmission now (Some key) s
           else (None, s))"

text \<open>
  The click listener of the share button. The two glyphs are the UTF-8 bytes of the
  check mark and of the cross mark. The write to the clipboard is taken to succeed; a
  failed write only logs to the console.
\<close>

definition shareClick :: "timezone \<Rightarrow> int \<Rightarrow> App \<Rightarrow> js_error option \<times> App" where
  "shareClick tz now s =
     (if \<not> gameFinished (gameState s)
      then (None, s\<lparr>alerts := alerts s @ [''You must complete the daily question before sharing!'']\<rparr>)
      else
        case currentQuestion s of
          None \<Rightarrow> (Some TypeError, s)
        | Some q \<Rightarrow>
            let isCorrect = (lastPlayedAnswer (gameState s) = Some (answer q));
                emoji = (if isCorrect then [CHR 0xE2, CHR 0x9C, CHR 0x85]
                         else [CHR 0xE2, CHR 0x9D, CHR 0x8C]);
                dayOfYearText =
                  (case Date_ymd tz (getFullYear tz now) 0 0 of
                     None \<Rightarrow> ''NaN''
                   | Some start \<Rightarrow>
                       let diff = now - start;
                           oneDay = 1000 * 60 * 60 * 24;
                           dayOfYear = diff div oneDay
                       in numberToString dayOfYear);
                shareText = ''OATdle #'' @ dayOfYearText @ [CHR 0x0A] @ emoji
            in (None, s\<lparr>clipboard := Some shareText\<rparr>))"

subsection \<open>Admin panel\<close>

text \<open>The values of the fields of the form for a new question.\<close>

record NewQuestionForm =
  new_question_subject :: string
  new_question_difficulty :: string
  new_question_stem :: string
  new_option_A :: string
  new_option_B :: string
  new_option_C :: string
  new_option_D :: string
  new_question_answer :: string
  new_question_explanation :: string

text \<open>
  The click listener of the delete buttons; \<open>questionId\<close> is the result of
  \<^verbatim>\<open>parseInt\<close>, \<open>None\<close> for \<^verbatim>\<open>NaN\<close>, which no id equals.
\<close>

definition deleteQuestionClick :: "int option \<Rightarrow> App \<Rightarrow> js_error option \<times> App" where
  "deleteQuestionClick questionId s =
     (case questions s of
        None \<Rightarrow> (Some TypeError, s)
      | Some qs \<Rightarrow> (None, s\<lparr>questions := Some (filter (\<lambda>q. Some (id_q q) \<noteq> questionId) qs)\<rparr>))"

text \<open>
  The click listener of the add button, over the platform's \<^verbatim>\<open>toUpperCase\<close>. A string
  is accepted by the test of the \<^verbatim>\<open>if\<close> when it is not empty. The redrawing of the
  list and the reset of the form are not part of the state.
\<close>

definition addQuestionClick ::
  "(string \<Rightarrow> string) \<Rightarrow> NewQuestionForm \<Rightarrow> App \<Rightarrow> js_error option \<times> App" where
  "addQuestionClick toUpperCase form s =
     (case questions s of
        None \<Rightarrow> (Some TypeError, s)
      | Some qs \<Rightarrow>
          let newQuestion =
                \<lparr>id_q = (case map id_q qs of [] \<Rightarrow> 1 | i # is \<Rightarrow> fold max is i + 1),
                 subject = new_question_subject form,
                 difficulty = new_question_difficulty form,
                 question = new_question_stem form,
                 options = [(''A'', new_option_A form), (''B'', new_option_B form),
                            (''C'', new_option_C form), (''D'', new_option_D form)],
                 answer = toUpperCase (new_question_answer form),
                 explanation = new_question_explanation form\<rparr>
          in if question newQuestion \<noteq> [] \<and> answer newQuestion \<noteq> [] \<and>
                new_option_A form \<noteq> [] \<and> new_option_B form \<noteq> [] \<and>
                new_option_C form \<noteq> [] \<and> new_option_D form \<noteq> []
             then (None, s\<lparr>questions := Some (qs @ [newQuestion])\<rparr>)
             else (None, s\<lparr>alerts := alerts s @ [''Please fill out all fields for the new question.'']\<rparr>))"

text \<open>
  The click listener of the button that sets the daily question; \<open>questionId\<close> is the
  result of \<^verbatim>\<open>parseInt\<close>.
\<close>

definition setDailyQuestionClick :: "int option \<Rightarrow> App \<Rightarrow> js_error option \<times> App" where
  "setDailyQuestionClick questionId s =
     (case questions s of
        None \<Rightarrow> (Some TypeError, s)
      | Some qs \<Rightarrow>
          (case find (\<lambda>q. Some (id_q q) = questionId) qs of
             Some q \<Rightarrow>
               let s1 = displayQuestion (JSVal q) s;
                   s2 = s1\<lparr>gameState := (gameState s1)\<lparr>gameFinished := False\<rparr>\<rparr>
               in (None, s2\<lparr>feedbackText := [], explanationShown := False,
                          countdownShown := False, adminModalShown := False\<rparr>)
           | None \<Rightarrow> (None, s\<lparr>alerts := alerts s @ [''Question not found.'']\<rparr>)))"

subsection \<open>Sample data\<close>

text \<open>
  Concrete zones, questions and stores for the evaluations below: UTC; a zone with the
  rules of New York in 2024 (five hours behind UTC, four hours behind between
  2024-03-10T07:00Z and 2024-11-03T06:00Z); a question with a given id and answer.
\<close>

definition utc :: timezone where
  "utc = \<lparr>base_offset = 0, transitions = []\<rparr>"

definition newYork2024 :: timezone where
  "newYork2024 =
     \<lparr>base_offset = - 18000000,
      transitions = [(1710054000000, - 14400000), (1730613600000, - 18000000)]\<rparr>"

definition sampleQuestion :: "int \<Rightarrow> string \<Rightarrow> Question" where
  "sampleQuestion i a =
     \<lparr>id_q = i, subject = ''Biology'', difficulty = ''Easy'', question = ''Stem'',
      options = [(''A'', ''one''), (''B'', ''two''), (''C'', ''three''), (''D'', ''four'')],
      answer = a, explanation = ''Because''\<rparr>"

definition emptyStorage :: Storage where
  "emptyStorage = \<lparr>oatdleStats = None, oatdleGameState = None\<rparr>"

text \<open>
  A page that shows the question \<open>q\<close> over the bank \<open>qs\<close>, with nothing stored and
  no game played.
\<close>

definition shownPage :: "Question list \<Rightarrow> Question \<Rightarrow> App" where
  "shownPage qs q = displayQuestion (JSVal q) ((initialApp emptyStorage)\<lparr>questions := Some qs\<rparr>)"

text \<open>
  One session on 2024-07-01 (UTC): the key \<^verbatim>\<open>b\<close> answers question 1 at 12:00:00, the
  admin panel sets question 2 as the daily question, and the key \<^verbatim>\<open>a\<close> answers it at
  12:01:00.
\<close>

definition replay_s1 :: App where
  "replay_s1 =
     snd (keydown asciiUpperCase 1719835200000 ''b''
            (shownPage [sampleQuestion 1 ''B'', sampleQuestion 2 ''C''] (sampleQuestion 1 ''B'')))"

definition replay_s2 :: App where
  "replay_s2 = snd (setDailyQuestionClick (Some 2) replay_s1)"

definition replay_s3 :: App where
  "replay_s3 = snd (keydown asciiUpperCase 1719835260000 ''a'' replay_s2)"

subsection \<open>Notions for the admin form\<close>

text \<open>
  In the words of the specification: the id of a new question, \<open>max existing id + 1\<close>
  or 1 for an empty store, and a valid answer letter, one of the four choice letters.
  For stating what the add listener does: the question that a form describes, its
  answer put in upper case by the platform, and a form whose stem, four option texts and
  upper-cased answer are not empty.
\<close>

definition newId :: "Question list \<Rightarrow> int" where
  "newId qs = (if qs = [] then 1 else Max (set (map id_q qs)) + 1)"

definition questionOfForm :: "(string \<Rightarrow> string) \<Rightarrow> int \<Rightarrow> NewQuestionForm \<Rightarrow> Question" where
  "questionOfForm toUpperCase i form =
     \<lparr>id_q = i,
      subject = new_question_subject form,
      difficulty = new_question_difficulty form,
      question = new_question_stem form,
      options = [(''A'', new_option_A form), (''B'', new_option_B form),
                 (''C'', new_option_C form), (''D'', new_option_D form)],
      answer = toUpperCase (new_question_answer form),
      explanation = new_question_explanation form\<rparr>"

definition formComplete :: "(string \<Rightarrow> string) \<Rightarrow> NewQuestionForm \<Rightarrow> bool" where
  "formComplete toUpperCase form \<longleftrightarrow>
     new_question_stem form \<noteq> [] \<and> toUpperCase (new_question_answer form) \<noteq> [] \<and>
     new_option_A form \<noteq> [] \<and> new_option_B form \<noteq> [] \<and>
     new_option_C form \<noteq> [] \<and> new_option_D form \<noteq> []"

definition validAnswerLetter :: "string \<Rightarrow> bool" where
  "validAnswerLetter a \<longleftrightarrow> a \<in> set [''A'', ''B'', ''C'', ''D'']"

definition sampleForm :: "string \<Rightarrow> NewQuestionForm" where
  "sampleForm a =
     \<lparr>new_question_subject = ''Physics'', new_question_difficulty = ''Hard'',
      new_question_stem = ''Why'', new_option_A = ''a'', new_option_B = ''b'',
      new_option_C = ''c'', new_option_D = ''d'', new_question_answer = a,
      new_question_explanation = ''So''\<rparr>"

subsection \<open>Reading a date string back\<close>

text \<open>
  The date string of a local time value, which \<^verbatim>\<open>toDateString\<close> builds, and the
  function that reads a year back from its string. They serve the proof that two date
  strings are equal exactly when the calendar dates are.
\<close>

definition dateString :: "int \<Rightarrow> string" where
  "dateString t =
     weekdayName (WeekDay t) @ '' '' @ monthName (MonthFromTime t) @ '' '' @
     ToZeroPaddedDecimalString (nat (DateFromTime t)) 2 @ '' '' @ yearString (YearFromTime t)"

definition parseYear :: "string \<Rightarrow> int" where
  "parseYear s = (if hd s = CHR ''-'' then - int (undecimal (tl s)) else int (undecimal s))"

text \<open>
  The local calendar date of the completion timestamp of a stored session state;
  \<open>None\<close> when the timestamp is not a valid time value.
\<close>

definition storedDate :: "timezone \<Rightarrow> GameState \<Rightarrow> (int \<times> int \<times> int) option" where
  "storedDate tz g = map_option (localDate tz) (Date_value (lastPlayedTs g))"

subsection \<open>The day of the year\<close>

text \<open>
  The instants that the contract of the daily selector names: the local midnight of
  January 0 of the local year of \<open>now\<close>, and the local midnight of the day of \<open>now\<close>.
  \<open>dayOfYear\<close> counts the days from the first to \<open>now\<close>; \<open>specDayOfYear\<close> is the
  formula in the words of the specification, which counts them to today's midnight.
\<close>

definition jan0Midnight :: "timezone \<Rightarrow> int \<Rightarrow> int" where
  "jan0Midnight tz now = UTC tz ((DayFromYear (YearFromTime (LocalTime tz now)) - 1) * msPerDay)"

definition todayMidnight :: "timezone \<Rightarrow> int \<Rightarrow> int" where
  "todayMidnight tz now = UTC tz (Day (LocalTime tz now) * msPerDay)"

definition dayOfYear :: "timezone \<Rightarrow> int \<Rightarrow> int" where
  "dayOfYear tz now = (now - jan0Midnight tz now) div 86400000"

definition specDayOfYear :: "timezone \<Rightarrow> int \<Rightarrow> int" where
  "specDayOfYear tz now = (todayMidnight tz now - jan0Midnight tz now) div 86400000"

text \<open>
  The calendar's number of the local day of \<open>now\<close> within its year, 1 for January 1.
\<close>

definition calendarDayOfYear :: "timezone \<Rightarrow> int \<Rightarrow> int" where
  "calendarDayOfYear tz now = DayWithinYear (LocalTime tz now) + 1"

definition TimeWithinDay :: "int \<Rightarrow> int" where
  "TimeWithinDay t = t mod msPerDay"

text \<open>
  The offset of the zone with which the local midnight of January 0 is read, and how far
  the offset at \<open>now\<close> and the offset with which today's local midnight is read lie
  above it. Under daylight saving time in New York the two shifts are one hour; in a
  zone whose offset never changes they are 0.
\<close>

definition offsetAtJan0 :: "timezone \<Rightarrow> int \<Rightarrow> int" where
  "offsetAtJan0 tz now =
     (DayFromYear (YearFromTime (LocalTime tz now)) - 1) * msPerDay - jan0Midnight tz now"

definition offsetShift :: "timezone \<Rightarrow> int \<Rightarrow> int" where
  "offsetShift tz now = (LocalTime tz now - now) - offsetAtJan0 tz now"

definition midnightShift :: "timezone \<Rightarrow> int \<Rightarrow> int" where
  "midnightShift tz now =
     (Day (LocalTime tz now) * msPerDay - todayMidnight tz now) - offsetAtJan0 tz now"

text \<open>
  The instants at which whole days of 24 hours, counted from the local midnight of
  January 0, agree with the calendar: the local day of \<open>now\<close> is also its day on a clock
  that keeps the offset of January 0 all year. These are all instants of a zone whose
  offset never changes. Where the offset has grown by an hour since January 0 they are
  all but those of the first hour after each local midnight, and where it has shrunk by
  an hour all but those of the last hour before it.
\<close>

definition dayAligned :: "timezone \<Rightarrow> int \<Rightarrow> bool" where
  "dayAligned tz now \<longleftrightarrow> Day (now + offsetAtJan0 tz now) = Day (LocalTime tz now)"

text \<open>
  The number \<^verbatim>\<open>dayOfYear\<close> as the five lines that \<^verbatim>\<open>getDailyQuestion\<close> and the share
  listener both contain compute it; \<open>None\<close> is \<^verbatim>\<open>NaN\<close>.
\<close>

definition dayOfYearNumber :: "timezone \<Rightarrow> int \<Rightarrow> int option" where
  "dayOfYearNumber tz now =
     (case Date_ymd tz (getFullYear tz now) 0 0 of
        None \<Rightarrow> None
      | Some start \<Rightarrow> Some ((now - start) div (1000 * 60 * 60 * 24)))"

subsection \<open>More sample data\<close>

definition bank2 :: "Question list" where
  "bank2 = [sampleQuestion 1 ''A'', sampleQuestion 2 ''B'']"

text \<open>A store that holds one won game, finished at the instant \<open>ts\<close> with the answer B.\<close>

definition playedStorage :: "int \<Rightarrow> Storage" where
  "playedStorage ts =
     \<lparr>oatdleStats = Some \<lparr>gamesPlayed = 1, wins = 1, currentStreak = 1, maxStreak = 1\<rparr>,
      oatdleGameState =
        Some \<lparr>gameFinished = True, lastPlayedTs = Some ts, lastPlayedAnswer = Some ''B''\<rparr>\<rparr>"

text \<open>A page on which the second question of \<open>bank2\<close> has been answered with B.\<close>

definition sharedPage :: App where
  "sharedPage =
     snd (handleAnswerSubmission 1719849600000 (Some ''B'') (shownPage bank2 (sampleQuestion 2 ''B'')))"

text \<open>
  A first visit on 2024-07-01 (UTC) to a bank of one question with answer B: the page
  loads at 12:00:00, the key \<^verbatim>\<open>b\<close> answers at 12:01:00 and the feedback callback
  fires; then the page is loaded again at 13:00:00 over the same storage, and the
  feedback callback of the replay fires.
\<close>

definition reload_a0 :: App where
  "reload_a0 =
     snd (init utc 1719835200000 (Fetched (Some [sampleQuestion 1 ''B''])) False
            1719835200100 1719835200100 emptyStorage)"

definition reload_a1 :: App where
  "reload_a1 = snd (keydown asciiUpperCase 1719835260000 ''b'' reload_a0)"

definition reload_a2 :: App where
  "reload_a2 = snd (runFeedbackTimeout reload_a1)"

definition reload_b0 :: App where
  "reload_b0 =
     snd (init utc 1719838800000 (Fetched (Some [sampleQuestion 1 ''B''])) False
            1719838800100 1719838800100 (localStorage reload_a2))"

definition reload_b1 :: App where
  "reload_b1 = snd (runFeedbackTimeout reload_b0)"

section \<open>Properties\<close>

subsection \<open>The calendar\<close>

lemma div_bounds: "0 < k \<Longrightarrow> k * (n div k) \<le> n \<and> n < k * (n div k) + (k::int)"
  using mult_div_mod_eq [of k n] pos_mod_sign [of k n] pos_mod_bound [of k n] by linarith

lemma year_estimate_low_arith:
  fixes x d a b c :: int
  assumes "146097 * x \<le> 400 * d" "4 * a \<le> x" "x + 68 < 100 * b + 100" "400 * c \<le> x + 368"
  shows "365 * (x - 1) + a - b + c \<le> d"
proof -
  have "400 * a \<le> 100 * x" "4 * x + 272 < 400 * b + 400"
    using assms by simp_all
  with assms have "146000 * x - 146000 + 400 * a - 400 * b + 400 * c \<le> 400 * d"
    by linarith
  also have "146000 * x - 146000 + 400 * a - 400 * b + 400 * c = 400 * (365 * (x - 1) + a - b + c)"
    by (simp add: algebra_simps)
  finally show ?thesis by simp
qed

lemma year_estimate_high_arith:
  fixes x d a b c :: int
  assumes "400 * d < 146097 * x + 146097" "x + 3 < 4 * a + 4" "100 * b \<le> x + 71"
    "x + 371 < 400 * c + 400"
  shows "d < 365 * (x + 2) + a - b + c"
proof -
  have "100 * x + 300 < 400 * a + 400" "400 * b \<le> 4 * x + 284"
    using assms by simp_all
  with assms have "400 * d < 146000 * x + 292000 + 400 * a - 400 * b + 400 * c"
    by linarith
  also have "146000 * x + 292000 + 400 * a - 400 * b + 400 * c = 400 * (365 * (x + 2) + a - b + c)"
    by (simp add: algebra_simps)
  finally show ?thesis by simp
qed

lemma year_estimate_low: "DayFromYear (1970 + (400 * d) div 146097 - 1) \<le> d"
proof -
  define x where "x = (400 * d) div 146097"
  have "146097 * x \<le> 400 * d"
    unfolding x_def using div_bounds [of 146097 "400 * d"] by simp
  moreover have "4 * (x div 4) \<le> x" "x + 68 < 100 * ((x + 68) div 100) + 100"
    "400 * ((x + 368) div 400) \<le> x + 368"
    using div_bounds [of 4 x] div_bounds [of 100 "x + 68"] div_bounds [of 400 "x + 368"]
    by simp_all
  ultimately have "365 * (x - 1) + x div 4 - (x + 68) div 100 + (x + 368) div 400 \<le> d"
    by (rule year_estimate_low_arith)
  then show ?thesis
    by (simp add: DayFromYear_def x_def ac_simps)
qed

lemma year_estimate_high: "d < DayFromYear (1970 + (400 * d) div 146097 + 2)"
proof -
  define x where "x = (400 * d) div 146097"
  have "400 * d < 146097 * x + 146097"
    unfolding x_def using div_bounds [of 146097 "400 * d"] by simp
  moreover have "x + 3 < 4 * ((x + 3) div 4) + 4" "100 * ((x + 71) div 100) \<le> x + 71"
    "x + 371 < 400 * ((x + 371) div 400) + 400"
    using div_bounds [of 4 "x + 3"] div_bounds [of 100 "x + 71"] div_bounds [of 400 "x + 371"]
    by simp_all
  ultimately have "d < 365 * (x + 2) + (x + 3) div 4 - (x + 71) div 100 + (x + 371) div 400"
    by (rule year_estimate_high_arith)
  then show ?thesis
    by (simp add: DayFromYear_def x_def ac_simps)
qed

lemma YearFromTime_bounds:
  "DayFromYear (YearFromTime t) \<le> Day t \<and> Day t < DayFromYear (YearFromTime t + 1)"
  using year_estimate_low [of "Day t"] year_estimate_high [of "Day t"]
  by (simp add: YearFromTime_def Let_def)

lemma div_Suc_int:
  fixes n k :: int
  assumes "0 < k"
  shows "(n + 1) div k = n div k + (if (n + 1) mod k = 0 then 1 else 0)"
proof -
  define q r where "q = (n + 1) div k" and "r = (n + 1) mod k"
  have eq: "n + 1 = k * q + r" and r: "0 \<le> r" "r < k"
    using assms by (simp_all add: q_def r_def)
  show ?thesis
  proof (cases "r = 0")
    case True
    have "n = k * (q - 1) + (k - 1)"
      using eq True by (simp add: algebra_simps)
    then have "n div k = q - 1"
      using assms int_div_pos_eq [of n k "q - 1" "k - 1"] by simp
    with True show ?thesis
      by (simp add: q_def r_def)
  next
    case False
    have "n = k * q + (r - 1)"
      using eq by simp
    then have "n div k = q"
      using r False int_div_pos_eq [of n k q "r - 1"] by simp
    with False show ?thesis
      by (simp add: q_def r_def)
  qed
qed

lemma mod_shift:
  fixes y k m :: int
  shows "(y - k * m) mod k = y mod k"
proof -
  have "(y - k * m) mod k = (y + k * (- m)) mod k" by simp
  also have "\<dots> = y mod k" by (rule mod_mult_self2)
  finally show ?thesis .
qed

lemma div_next:
  fixes y k m :: int
  assumes "0 < k"
  shows "(y + 1 - (k * m + 1)) div k = (y - (k * m + 1)) div k + (if y mod k = 0 then 1 else 0)"
proof -
  have "(y - (k * m + 1) + 1) mod k = y mod k"
    using mod_shift [of y k m] by simp
  then show ?thesis
    using div_Suc_int [OF assms, of "y - (k * m + 1)"] by (simp add: algebra_simps)
qed

lemma DayFromYear_step: "DayFromYear (y + 1) = DayFromYear y + DaysInYear y"
proof -
  have a: "(y + 1 - 1969) div 4 = (y - 1969) div 4 + (if y mod 4 = 0 then 1 else 0)"
    using div_next [of 4 y 492] by simp
  have b: "(y + 1 - 1901) div 100 = (y - 1901) div 100 + (if y mod 100 = 0 then 1 else 0)"
    using div_next [of 100 y 19] by simp
  have c: "(y + 1 - 1601) div 400 = (y - 1601) div 400 + (if y mod 400 = 0 then 1 else 0)"
    using div_next [of 400 y 4] by simp
  have "(4::int) dvd 100" "(100::int) dvd 400"
    by simp_all
  then have d: "y mod 100 = 0 \<Longrightarrow> y mod 4 = 0" "y mod 400 = 0 \<Longrightarrow> y mod 100 = 0"
    by (meson dvd_trans mod_eq_0_iff_dvd)+
  show ?thesis
  proof (cases "y mod 4 = 0")
    case False
    with d show ?thesis
      unfolding DayFromYear_def DaysInYear_def a b c by auto
  next
    case y4: True
    show ?thesis
    proof (cases "y mod 100 = 0")
      case False
      with y4 d show ?thesis
        unfolding DayFromYear_def DaysInYear_def a b c by auto
    next
      case True
      with y4 show ?thesis
        unfolding DayFromYear_def DaysInYear_def a b c by auto
    qed
  qed
qed

lemma DaysInYear_cases: "DaysInYear y = 365 \<or> DaysInYear y = 366"
  by (simp add: DaysInYear_def)

lemma DayFromYear_less: "DayFromYear y < DayFromYear (y + 1)"
  using DaysInYear_cases [of y] by (auto simp: DayFromYear_step)

lemma DayFromYear_mono: "y \<le> z \<Longrightarrow> DayFromYear y \<le> DayFromYear z"
proof (induction z rule: int_ge_induct)
  case base
  show ?case by simp
next
  case (step i)
  then show ?case using DayFromYear_less [of i] by simp
qed

lemma DayWithinYear_range: "0 \<le> DayWithinYear t \<and> DayWithinYear t < 365 + InLeapYear t"
  using YearFromTime_bounds [of t] DaysInYear_cases [of "YearFromTime t"]
  by (auto simp: DayWithinYear_def InLeapYear_def DayFromYear_step)

lemma MonthFromTime_range: "0 \<le> MonthFromTime t \<and> MonthFromTime t \<le> 11"
  by (simp add: MonthFromTime_def Let_def)

lemma InLeapYear_cases: "InLeapYear t = 0 \<or> InLeapYear t = 1"
  by (simp add: InLeapYear_def)

lemma DateFromTime_range: "1 \<le> DateFromTime t \<and> DateFromTime t \<le> 31"
  using DayWithinYear_range [of t] InLeapYear_cases [of t]
  by (auto simp: DateFromTime_def MonthFromTime_def monthStart_def Let_def)

lemma Day_from_date:
  "Day t = DayFromYear (YearFromTime t) +
     monthStart (MonthFromTime t) (if DaysInYear (YearFromTime t) = 366 then 1 else 0) +
     DateFromTime t - 1"
  by (simp add: DateFromTime_def DayWithinYear_def InLeapYear_def)

lemma mult_le_iff_le_div:
  fixes k D t :: int
  assumes "0 < k"
  shows "k * D \<le> t \<longleftrightarrow> D \<le> t div k"
proof
  assume "k * D \<le> t"
  then have "k * D < k * (t div k + 1)"
    using div_bounds [OF assms, of t] by (simp add: algebra_simps)
  then have "D < t div k + 1"
    using assms by (simp only: mult_less_cancel_left_pos)
  then show "D \<le> t div k" by simp
next
  assume "D \<le> t div k"
  then have "k * D \<le> k * (t div k)"
    using assms by (simp add: mult_left_mono)
  then show "k * D \<le> t"
    using div_bounds [OF assms, of t] by linarith
qed

lemma TimeFromYear_le_iff: "TimeFromYear z \<le> t \<longleftrightarrow> DayFromYear z \<le> Day t"
  unfolding TimeFromYear_def Day_def
  by (rule mult_le_iff_le_div) (simp add: msPerDay_def)

text \<open>
  The executable \<open>YearFromTime\<close> is the year of the ECMAScript definition: the one year
  whose start is not after \<open>t\<close> and whose end is.
\<close>

lemma YearFromTime_iff:
  "YearFromTime t = y \<longleftrightarrow> TimeFromYear y \<le> t \<and> t < TimeFromYear (y + 1)"
proof
  assume "YearFromTime t = y"
  then show "TimeFromYear y \<le> t \<and> t < TimeFromYear (y + 1)"
    using YearFromTime_bounds [of t] TimeFromYear_le_iff [of y t] TimeFromYear_le_iff [of "y + 1" t]
    by auto
next
  assume a: "TimeFromYear y \<le> t \<and> t < TimeFromYear (y + 1)"
  then have lo: "DayFromYear y \<le> Day t" and hi: "Day t < DayFromYear (y + 1)"
    using TimeFromYear_le_iff [of y t] TimeFromYear_le_iff [of "y + 1" t] by auto
  let ?Y = "YearFromTime t"
  have "\<not> y < ?Y"
  proof
    assume "y < ?Y"
    then have "DayFromYear (y + 1) \<le> DayFromYear ?Y"
      by (simp add: DayFromYear_mono)
    with hi YearFromTime_bounds [of t] show False by simp
  qed
  moreover have "\<not> ?Y < y"
  proof
    assume "?Y < y"
    then have "DayFromYear (?Y + 1) \<le> DayFromYear y"
      by (simp add: DayFromYear_mono)
    with lo YearFromTime_bounds [of t] show False by simp
  qed
  ultimately show "YearFromTime t = y" by simp
qed

subsection \<open>Date strings\<close>

lemma digitVal_digitChar: "n < 10 \<Longrightarrow> digitVal (digitChar n) = n"
proof -
  assume "n < 10"
  then have "n \<in> {0, 1, 2, 3, 4, 5, 6, 7, 8, 9}" by auto
  then show ?thesis
    by (auto simp: digitChar_def digitVal_def)
qed

lemma digitChar_digit: "n < 10 \<Longrightarrow> digitChar n \<in> set ''0123456789''"
  unfolding digitChar_def by (rule nth_mem) simp

lemma undecimal_snoc: "undecimal (s @ [c]) = 10 * undecimal s + digitVal c"
  by (simp add: undecimal_def)

lemma undecimal_decimal: "undecimal (decimal n) = n"
proof (induction n rule: decimal.induct)
  case (1 n)
  show ?case
  proof (cases "n < 10")
    case True
    then show ?thesis
      by (subst decimal.simps) (simp add: undecimal_def digitVal_digitChar)
  next
    case False
    then have "undecimal (decimal (n div 10)) = n div 10"
      using "1" by simp
    with False show ?thesis
      by (subst decimal.simps) (simp add: undecimal_snoc digitVal_digitChar)
  qed
qed

lemma decimal_digits: "set (decimal n) \<subseteq> set ''0123456789''"
proof (induction n rule: decimal.induct)
  case (1 n)
  show ?case
  proof (cases "n < 10")
    case True
    then show ?thesis
      using digitChar_digit [of n] by (subst decimal.simps) simp
  next
    case False
    then have "set (decimal (n div 10)) \<subseteq> set ''0123456789''"
      using "1" by simp
    moreover have "digitChar (n mod 10) \<in> set ''0123456789''"
      by (rule digitChar_digit) simp
    ultimately show ?thesis
      using False by (subst decimal.simps) simp
  qed
qed

lemma decimal_not_Nil: "decimal n \<noteq> []"
  by (subst decimal.simps) simp

lemma undecimal_zeros: "undecimal (replicate k (CHR ''0'') @ s) = undecimal s"
proof -
  have "foldl (\<lambda>a c. 10 * a + digitVal c) 0 (replicate k (CHR ''0'')) = 0"
    by (induction k) (simp_all add: digitVal_def)
  then show ?thesis
    by (simp add: undecimal_def)
qed

lemma undecimal_padded: "undecimal (ToZeroPaddedDecimalString n m) = n"
  by (simp add: ToZeroPaddedDecimalString_def undecimal_zeros undecimal_decimal)

lemma length_decimal_2: "n < 100 \<Longrightarrow> length (decimal n) \<le> 2"
proof -
  assume n: "n < 100"
  show ?thesis
  proof (cases "n < 10")
    case True
    then show ?thesis by (subst decimal.simps) simp
  next
    case False
    then have "decimal n = decimal (n div 10) @ [digitChar (n mod 10)]"
      by (subst decimal.simps) simp
    moreover have "n div 10 < 10"
      using n by simp
    then have "decimal (n div 10) = [digitChar (n div 10)]"
      by (subst decimal.simps) simp
    ultimately show ?thesis by simp
  qed
qed

lemma length_padded_2: "n < 100 \<Longrightarrow> length (ToZeroPaddedDecimalString n 2) = 2"
  using length_decimal_2 [of n] by (simp add: ToZeroPaddedDecimalString_def)

lemma length_padded_ge: "m \<le> length (ToZeroPaddedDecimalString n m)"
  by (simp add: ToZeroPaddedDecimalString_def)

lemma padded_digits: "set (ToZeroPaddedDecimalString n m) \<subseteq> set ''0123456789''"
  using decimal_digits [of n] by (auto simp: ToZeroPaddedDecimalString_def)

lemma padded_not_Nil: "ToZeroPaddedDecimalString n m \<noteq> []"
  by (simp add: ToZeroPaddedDecimalString_def decimal_not_Nil)

lemma hd_padded: "hd (ToZeroPaddedDecimalString n m) \<noteq> CHR ''-''"
proof -
  have "hd (ToZeroPaddedDecimalString n m) \<in> set ''0123456789''"
    using padded_digits [of n m] padded_not_Nil [of n m] hd_in_set by blast
  then show ?thesis by auto
qed

lemma parseYear_yearString: "parseYear (yearString y) = y"
proof (cases "y \<ge> 0")
  case True
  then show ?thesis
    using hd_padded [of "nat \<bar>y\<bar>" 4] by (simp add: parseYear_def yearString_def undecimal_padded)
next
  case False
  then show ?thesis
    by (simp add: parseYear_def yearString_def undecimal_padded)
qed

lemma yearString_inj: "yearString y = yearString z \<longleftrightarrow> y = z"
  by (metis parseYear_yearString)

lemma length_yearString: "4 \<le> length (yearString y)"
  using length_padded_ge [of 4 "nat \<bar>y\<bar>"] by (simp add: yearString_def)

lemma length_weekdayName: "0 \<le> w \<Longrightarrow> w < 7 \<Longrightarrow> length (weekdayName w) = 3"
proof -
  assume "0 \<le> w" "w < 7"
  then have "w \<in> {0, 1, 2, 3, 4, 5, 6}" by auto
  then show ?thesis by (auto simp: weekdayName_def)
qed

lemma length_monthName: "0 \<le> m \<Longrightarrow> m \<le> 11 \<Longrightarrow> length (monthName m) = 3"
proof -
  let ?names = "[''Jan'', ''Feb'', ''Mar'', ''Apr'', ''May'', ''Jun'',
      ''Jul'', ''Aug'', ''Sep'', ''Oct'', ''Nov'', ''Dec'']"
  assume "0 \<le> m" "m \<le> 11"
  then have "?names ! nat m \<in> set ?names"
    by (intro nth_mem) simp
  moreover have "\<forall>s \<in> set ?names. length s = 3"
    by simp
  ultimately show ?thesis
    unfolding monthName_def by blast
qed

lemma monthName_inj:
  assumes "0 \<le> m" "m \<le> 11" "0 \<le> n" "n \<le> 11"
  shows "monthName m = monthName n \<longleftrightarrow> m = n"
proof -
  let ?names = "[''Jan'', ''Feb'', ''Mar'', ''Apr'', ''May'', ''Jun'',
      ''Jul'', ''Aug'', ''Sep'', ''Oct'', ''Nov'', ''Dec'']"
  have "distinct ?names" by simp
  moreover have "nat m < length ?names" "nat n < length ?names"
    using assms by simp_all
  ultimately have "(?names ! nat m = ?names ! nat n) = (nat m = nat n)"
    by (rule nth_eq_iff_index_eq)
  then show ?thesis
    using assms by (simp add: monthName_def eq_nat_nat_iff)
qed

lemma toDateString_Some: "toDateString tz (Some t) = dateString (LocalTime tz t)"
  by (simp add: toDateString_def dateString_def Let_def)

lemma WeekDay_range: "0 \<le> WeekDay t \<and> WeekDay t < 7"
  by (simp add: WeekDay_def)

lemma length_date_padded: "length (ToZeroPaddedDecimalString (nat (DateFromTime t)) 2) = 2"
proof -
  have "nat (DateFromTime t) < 100"
    using DateFromTime_range [of t] by arith
  then show ?thesis by (rule length_padded_2)
qed

lemma dateString_eq_iff:
  "dateString s = dateString t \<longleftrightarrow>
     YearFromTime s = YearFromTime t \<and> MonthFromTime s = MonthFromTime t \<and>
     DateFromTime s = DateFromTime t"
proof
  assume eq: "dateString s = dateString t"
  have w: "length (weekdayName (WeekDay s)) = length (weekdayName (WeekDay t))"
    using WeekDay_range [of s] WeekDay_range [of t] by (simp add: length_weekdayName)
  have m: "length (monthName (MonthFromTime s)) = length (monthName (MonthFromTime t))"
    using MonthFromTime_range [of s] MonthFromTime_range [of t] by (simp add: length_monthName)
  have d: "length (ToZeroPaddedDecimalString (nat (DateFromTime s)) 2) =
           length (ToZeroPaddedDecimalString (nat (DateFromTime t)) 2)"
    by (simp add: length_date_padded)
  from eq w have 1: "monthName (MonthFromTime s) @ '' '' @
      ToZeroPaddedDecimalString (nat (DateFromTime s)) 2 @ '' '' @ yearString (YearFromTime s) =
      monthName (MonthFromTime t) @ '' '' @
      ToZeroPaddedDecimalString (nat (DateFromTime t)) 2 @ '' '' @ yearString (YearFromTime t)"
    by (simp add: dateString_def)
  from 1 m have 2: "monthName (MonthFromTime s) = monthName (MonthFromTime t)"
    and 3: "ToZeroPaddedDecimalString (nat (DateFromTime s)) 2 @ '' '' @ yearString (YearFromTime s) =
      ToZeroPaddedDecimalString (nat (DateFromTime t)) 2 @ '' '' @ yearString (YearFromTime t)"
    by simp_all
  from 3 d have 4: "ToZeroPaddedDecimalString (nat (DateFromTime s)) 2 =
      ToZeroPaddedDecimalString (nat (DateFromTime t)) 2"
    and 5: "yearString (YearFromTime s) = yearString (YearFromTime t)"
    by simp_all
  from 2 have "MonthFromTime s = MonthFromTime t"
    using MonthFromTime_range [of s] MonthFromTime_range [of t] by (simp add: monthName_inj)
  moreover from 4 have "nat (DateFromTime s) = nat (DateFromTime t)"
    by (metis undecimal_padded)
  then have "DateFromTime s = DateFromTime t"
    using DateFromTime_range [of s] DateFromTime_range [of t] by arith
  moreover from 5 have "YearFromTime s = YearFromTime t"
    by (simp add: yearString_inj)
  ultimately show "YearFromTime s = YearFromTime t \<and> MonthFromTime s = MonthFromTime t \<and>
     DateFromTime s = DateFromTime t" by simp
next
  assume a: "YearFromTime s = YearFromTime t \<and> MonthFromTime s = MonthFromTime t \<and>
     DateFromTime s = DateFromTime t"
  then have "Day s = Day t"
    using Day_from_date [of s] Day_from_date [of t] by simp
  with a show "dateString s = dateString t"
    by (simp add: dateString_def WeekDay_def)
qed

text \<open>
  Two valid dates have the same date string exactly when they fall on the same local
  calendar date; the string of an invalid date is the string of no valid date.
\<close>

lemma toDateString_eq_iff:
  "toDateString tz (Some a) = toDateString tz (Some b) \<longleftrightarrow> localDate tz a = localDate tz b"
  by (simp add: toDateString_Some dateString_eq_iff localDate_def Let_def)

lemma length_dateString: "15 \<le> length (dateString t)"
  using WeekDay_range [of t] MonthFromTime_range [of t] length_yearString [of "YearFromTime t"]
  by (simp add: dateString_def length_weekdayName length_monthName length_date_padded)

lemma toDateString_None_neq: "toDateString tz None \<noteq> toDateString tz (Some b)"
proof
  assume "toDateString tz None = toDateString tz (Some b)"
  then have "length (toDateString tz None) = length (dateString (LocalTime tz b))"
    by (simp add: toDateString_Some)
  then show False
    using length_dateString [of "LocalTime tz b"] by (simp add: toDateString_def)
qed

lemma toDateString_eq_date:
  "toDateString tz tv = toDateString tz (Some b) \<longleftrightarrow> map_option (localDate tz) tv = Some (localDate tz b)"
  by (cases tv) (simp_all add: toDateString_None_neq toDateString_eq_iff)

lemma stored_toDateString_eq:
  "toDateString tz (Date_value (lastPlayedTs g)) = toDateString tz (Some b) \<longleftrightarrow>
     storedDate tz g = Some (localDate tz b)"
  by (simp add: storedDate_def toDateString_eq_date)

subsection \<open>Session state reconciliation\<close>

text \<open>
  C7. On startup, with a session state in the storage: if the local calendar date
  (year, month, day) of its completion timestamp equals today's, the stored state
  becomes the session state of the page; if the date differs, or the timestamp is not a
  valid time, the stored state is not adopted and the session state is the initial one,
  which is not completed. In general \<^verbatim>\<open>loadGameState\<close> replaces the session state by
  the stored one in the first case and changes nothing otherwise.
\<close>

theorem C7_stale_state_is_not_adopted:
  assumes "oatdleGameState st = Some savedState"
  shows "gameState (loadGameState tz now (loadStats (initialApp st))) =
           (if storedDate tz savedState = Some (localDate tz now) then savedState else initialGameState) \<and>
         \<not> gameFinished initialGameState \<and>
         loadGameState tz now s =
           (case oatdleGameState (localStorage s) of
              None \<Rightarrow> s
            | Some g \<Rightarrow> if storedDate tz g = Some (localDate tz now) then s\<lparr>gameState := g\<rparr> else s)"
proof -
  have "localStorage (loadStats (initialApp st)) = st"
    "gameState (loadStats (initialApp st)) = initialGameState"
    by (simp_all add: loadStats_def initialApp_def split: option.split)
  then show ?thesis
    using assms
    by (simp add: loadGameState_def stored_toDateString_eq initialGameState_def
        split: option.split)
qed

lemma played_date: "storedDate utc (the (oatdleGameState (playedStorage 1719835260000))) = Some (2024, 6, 1)"
  by code_simp

lemma played_today: "localDate utc 1719838800000 = (2024, 6, 1)"
  by code_simp

lemma played_tomorrow: "localDate utc 1719878400000 = (2024, 6, 2)"
  by code_simp

theorem C7_stale_state_is_not_adopted_witness:
  "oatdleGameState (playedStorage 1719835260000) =
     Some \<lparr>gameFinished = True, lastPlayedTs = Some 1719835260000, lastPlayedAnswer = Some ''B''\<rparr> \<and>
   gameState (loadGameState utc 1719838800000 (loadStats (initialApp (playedStorage 1719835260000)))) =
     \<lparr>gameFinished = True, lastPlayedTs = Some 1719835260000, lastPlayedAnswer = Some ''B''\<rparr> \<and>
   gameState (loadGameState utc 1719878400000 (loadStats (initialApp (playedStorage 1719835260000)))) =
     initialGameState"
proof -
  have h: "oatdleGameState (playedStorage 1719835260000) =
     Some \<lparr>gameFinished = True, lastPlayedTs = Some 1719835260000, lastPlayedAnswer = Some ''B''\<rparr>"
    by (simp add: playedStorage_def)
  have d: "storedDate utc \<lparr>gameFinished = True, lastPlayedTs = Some 1719835260000,
      lastPlayedAnswer = Some ''B''\<rparr> = Some (2024, 6, 1)"
    using played_date by (simp add: h)
  from C7_stale_state_is_not_adopted [OF h, of utc 1719838800000, THEN conjunct1]
    C7_stale_state_is_not_adopted [OF h, of utc 1719878400000, THEN conjunct1] h
  show ?thesis
    by (simp add: d played_today played_tomorrow)
qed

subsection \<open>The daily selector\<close>

lemma getDailyQuestion_number:
  "qs \<noteq> [] \<Longrightarrow> getDailyQuestion tz now (Some qs) =
     (case dayOfYearNumber tz now of
        None \<Rightarrow> JSUndefined
      | Some d \<Rightarrow> js_index qs (js_rem d (int (length qs))))"
  by (simp add: getDailyQuestion_def dayOfYearNumber_def Let_def split: option.split)

lemma Day_TimeWithinDay: "t = Day t * msPerDay + TimeWithinDay t"
  by (simp add: Day_def TimeWithinDay_def)

lemma Day_add_days: "Day (d * msPerDay + r) = d + r div msPerDay"
proof -
  have "(r + d * msPerDay) div msPerDay = d + r div msPerDay"
    by (rule div_mult_self1) (simp add: msPerDay_def)
  then show ?thesis
    by (simp add: Day_def add.commute)
qed

text \<open>
  The time from the local midnight of January 0 to \<open>now\<close> is the calendar's day number
  in whole days and the local time of day less the shift of the offset.
\<close>

lemma elapsed_since_jan0:
  "now - jan0Midnight tz now =
     calendarDayOfYear tz now * msPerDay + (TimeWithinDay (LocalTime tz now) - offsetShift tz now)"
proof -
  have "LocalTime tz now = Day (LocalTime tz now) * msPerDay + TimeWithinDay (LocalTime tz now)"
    by (rule Day_TimeWithinDay)
  then show ?thesis
    by (simp add: offsetShift_def offsetAtJan0_def calendarDayOfYear_def DayWithinYear_def
        algebra_simps)
qed

lemma dayAligned_iff:
  "dayAligned tz now \<longleftrightarrow>
     0 \<le> TimeWithinDay (LocalTime tz now) - offsetShift tz now \<and>
     TimeWithinDay (LocalTime tz now) - offsetShift tz now < msPerDay"
proof -
  define r where "r = TimeWithinDay (LocalTime tz now) - offsetShift tz now"
  have "LocalTime tz now = Day (LocalTime tz now) * msPerDay + TimeWithinDay (LocalTime tz now)"
    by (rule Day_TimeWithinDay)
  then have "now + offsetAtJan0 tz now = Day (LocalTime tz now) * msPerDay + r"
    by (simp add: r_def offsetShift_def)
  then have "Day (now + offsetAtJan0 tz now) = Day (LocalTime tz now) + r div msPerDay"
    by (simp only: Day_add_days)
  moreover have "r div msPerDay = 0 \<longleftrightarrow> 0 \<le> r \<and> r < msPerDay"
    by (auto simp: zdiv_eq_0_iff msPerDay_def)
  ultimately show ?thesis
    by (simp add: dayAligned_def r_def)
qed

lemma dayOfYear_shift:
  "dayOfYear tz now =
     calendarDayOfYear tz now + (TimeWithinDay (LocalTime tz now) - offsetShift tz now) div msPerDay"
proof -
  have "dayOfYear tz now = Day (now - jan0Midnight tz now)"
    by (simp add: dayOfYear_def Day_def msPerDay_def)
  then show ?thesis
    by (simp only: elapsed_since_jan0 Day_add_days)
qed

text \<open>
  The day number of the code is the calendar's day number exactly at the aligned
  instants.
\<close>

lemma dayOfYear_calendar_iff:
  "dayOfYear tz now = calendarDayOfYear tz now \<longleftrightarrow> dayAligned tz now"
proof -
  have "(TimeWithinDay (LocalTime tz now) - offsetShift tz now) div msPerDay = 0 \<longleftrightarrow>
      dayAligned tz now"
    by (auto simp: dayAligned_iff zdiv_eq_0_iff msPerDay_def)
  then show ?thesis
    by (auto simp: dayOfYear_shift)
qed

lemma calendarDayOfYear_pos: "1 \<le> calendarDayOfYear tz now"
  using DayWithinYear_range [of "LocalTime tz now"] by (simp add: calendarDayOfYear_def)

lemma Date_ymd_start:
  assumes "getFullYear tz now < 0 \<or> 99 < getFullYear tz now"
    and "\<bar>jan0Midnight tz now\<bar> \<le> 8640000000000000"
  shows "Date_ymd tz (getFullYear tz now) 0 0 = Some (jan0Midnight tz now)"
proof -
  have "MakeDate (MakeDay (getFullYear tz now) 0 0) 0 =
      (DayFromYear (YearFromTime (LocalTime tz now)) - 1) * msPerDay"
    by (simp add: MakeDate_def MakeDay_def monthStart_def getFullYear_def)
  with assms(1) have "Date_ymd tz (getFullYear tz now) 0 0 = TimeClip (jan0Midnight tz now)"
    by (auto simp: Date_ymd_def jan0Midnight_def Let_def)
  with assms(2) show ?thesis
    by (simp add: TimeClip_def)
qed

lemma dayOfYearNumber_start:
  assumes "getFullYear tz now < 0 \<or> 99 < getFullYear tz now"
    and "\<bar>jan0Midnight tz now\<bar> \<le> 8640000000000000"
  shows "dayOfYearNumber tz now = Some (dayOfYear tz now)"
  using Date_ymd_start [OF assms] by (simp add: dayOfYearNumber_def dayOfYear_def)

lemma specDayOfYear_shift:
  "specDayOfYear tz now = calendarDayOfYear tz now + (- midnightShift tz now) div msPerDay"
proof -
  have "todayMidnight tz now - jan0Midnight tz now =
      calendarDayOfYear tz now * msPerDay + (- midnightShift tz now)"
    by (simp add: midnightShift_def offsetAtJan0_def calendarDayOfYear_def DayWithinYear_def
        algebra_simps)
  moreover have "specDayOfYear tz now = Day (todayMidnight tz now - jan0Midnight tz now)"
    by (simp add: specDayOfYear_def Day_def msPerDay_def)
  ultimately show ?thesis
    by (simp only: Day_add_days)
qed

text \<open>
  The quotient that counts to today's local midnight is the calendar's day number
  exactly when the offset at today's midnight is not above the offset at January 0.
\<close>

lemma specDayOfYear_eq_iff:
  "specDayOfYear tz now = calendarDayOfYear tz now \<longleftrightarrow>
     - msPerDay < midnightShift tz now \<and> midnightShift tz now \<le> 0"
proof -
  have "(- midnightShift tz now) div msPerDay = 0 \<longleftrightarrow>
      0 \<le> - midnightShift tz now \<and> - midnightShift tz now < msPerDay"
    by (auto simp: zdiv_eq_0_iff msPerDay_def)
  then show ?thesis
    by (auto simp: specDayOfYear_shift)
qed

lemma fixed_offset_aligned:
  assumes "transitions tz = []"
  shows "dayAligned tz now" and "midnightShift tz now = 0"
proof -
  have u: "UTC tz t = t - base_offset tz" for t
    using assms by (simp add: UTC_def)
  have l: "LocalTime tz now = now + base_offset tz"
    using assms by (simp add: LocalTime_def)
  have o: "offsetAtJan0 tz now = base_offset tz"
    by (simp add: offsetAtJan0_def jan0Midnight_def u)
  then show "dayAligned tz now"
    by (simp add: dayAligned_def l)
  show "midnightShift tz now = 0"
    by (simp add: midnightShift_def todayMidnight_def u o)
qed

lemma noon_selected:
  "getDailyQuestion newYork2024 1719849600000 (Some bank2) = JSVal (sampleQuestion 2 ''B'')"
  by code_simp

lemma noon_spec: "specDayOfYear newYork2024 1719849600000 = 182"
  by code_simp

text \<open>
  C3, as stated, fails: the day number of the code is not the quotient that counts to
  today's local midnight. In New York at noon of 2024-07-01, under daylight saving
  time, today's local midnight is 182 days and 23 hours after the local midnight of
  January 0, so the formula of the claim gives 182 and, of two questions, the first;
  the code counts to the current instant, gets 183 and returns the second.
\<close>

theorem C3_counterexample:
  "getDailyQuestion newYork2024 1719849600000 (Some bank2) = JSVal (sampleQuestion 2 ''B'') \<and>
   specDayOfYear newYork2024 1719849600000 = 182 \<and>
   bank2 ! nat (specDayOfYear newYork2024 1719849600000 mod int (length bank2)) = sampleQuestion 1 ''A'' \<and>
   sampleQuestion 1 ''A'' \<noteq> sampleQuestion 2 ''B''"
  by (simp add: noon_selected noon_spec) (simp add: bank2_def sampleQuestion_def)

text \<open>
  C3, amended. Let \<open>now\<close> be an aligned instant: its local day is also its day on a
  clock that keeps the offset of January 0 (every instant where the offset of the zone
  never changes; under daylight saving time every instant but those of the first hour
  after local midnight, or of the last hour before it where the offset has shrunk).
  Let the local year lie outside 0 to 99, where \<^verbatim>\<open>new Date(y, 0, 0)\<close> means the year
  \<open>1900 + y\<close>, and let the local midnight of January 0 be a valid time value. Then for
  every non-empty bank of \<open>N\<close> questions the daily selector computes
  \<open>dayOfYear = floor((now - local midnight of January 0 of the local year of now) /
  86,400,000)\<close>, counting to the current instant and not to today's local midnight;
  this is the calendar's number of the local day in its year; the selector returns the
  question at index \<open>dayOfYear mod N\<close>, and that index lies in \<open>[0, N)\<close>. The number is
  the quotient that counts to today's local midnight exactly when the offset at today's
  local midnight is not above the offset at January 0 (and less than a day below it),
  as where the offset never changes. Of the instants that are not aligned nothing is
  said.
\<close>

theorem C3_daily_selector_index:
  assumes "qs \<noteq> []" and "dayAligned tz now"
    and "getFullYear tz now < 0 \<or> 99 < getFullYear tz now"
    and "\<bar>jan0Midnight tz now\<bar> \<le> 8640000000000000"
  shows "dayOfYearNumber tz now = Some (dayOfYear tz now) \<and>
         dayOfYear tz now = calendarDayOfYear tz now \<and>
         getDailyQuestion tz now (Some qs) = JSVal (qs ! nat (dayOfYear tz now mod int (length qs))) \<and>
         0 \<le> dayOfYear tz now mod int (length qs) \<and>
         dayOfYear tz now mod int (length qs) < int (length qs) \<and>
         (dayOfYear tz now = specDayOfYear tz now \<longleftrightarrow>
            - msPerDay < midnightShift tz now \<and> midnightShift tz now \<le> 0)"
proof -
  have n: "0 < int (length qs)"
    using assms(1) by simp
  have c: "dayOfYear tz now = calendarDayOfYear tz now"
    using assms(2) by (simp add: dayOfYear_calendar_iff)
  have d: "0 \<le> dayOfYear tz now"
    using calendarDayOfYear_pos [of tz now] by (simp add: c)
  have r: "js_rem (dayOfYear tz now) (int (length qs)) = dayOfYear tz now mod int (length qs)"
    using d by (simp add: js_rem_def)
  have m: "0 \<le> dayOfYear tz now mod int (length qs)"
    "dayOfYear tz now mod int (length qs) < int (length qs)"
    using n by simp_all
  have k: "dayOfYearNumber tz now = Some (dayOfYear tz now)"
    using assms(3,4) by (rule dayOfYearNumber_start)
  have "getDailyQuestion tz now (Some qs) = js_index qs (js_rem (dayOfYear tz now) (int (length qs)))"
    using assms(1) k by (simp add: getDailyQuestion_number)
  then have "getDailyQuestion tz now (Some qs) = JSVal (qs ! nat (dayOfYear tz now mod int (length qs)))"
    using m by (simp add: r js_index_def)
  moreover have "dayOfYear tz now = specDayOfYear tz now \<longleftrightarrow>
      - msPerDay < midnightShift tz now \<and> midnightShift tz now \<le> 0"
    using specDayOfYear_eq_iff [of tz now] by (auto simp: c)
  ultimately show ?thesis
    using m c k by simp
qed

lemma noon_aligned: "dayAligned newYork2024 1719849600000"
  by code_simp

lemma noon_year: "getFullYear newYork2024 1719849600000 = 2024"
  by code_simp

lemma noon_start: "jan0Midnight newYork2024 1719849600000 = 1703998800000"
  by code_simp

lemma noon_code: "dayOfYear newYork2024 1719849600000 = 183"
  by code_simp

lemma noon_shift: "midnightShift newYork2024 1719849600000 = 3600000"
  by code_simp

lemma utc_noon_year: "getFullYear utc 1719849600000 = 2024"
  by code_simp

lemma utc_noon_start: "jan0Midnight utc 1719849600000 = 1703980800000"
  by code_simp

theorem C3_daily_selector_index_witness:
  "bank2 \<noteq> [] \<and> dayAligned newYork2024 1719849600000 \<and>
   (99::int) < getFullYear newYork2024 1719849600000 \<and>
   \<bar>jan0Midnight newYork2024 1719849600000\<bar> \<le> 8640000000000000 \<and>
   dayOfYearNumber newYork2024 1719849600000 = Some 183 \<and>
   calendarDayOfYear newYork2024 1719849600000 = 183 \<and>
   getDailyQuestion newYork2024 1719849600000 (Some bank2) = JSVal (bank2 ! 1) \<and>
   dayOfYear newYork2024 1719849600000 \<noteq> specDayOfYear newYork2024 1719849600000 \<and>
   dayAligned utc 1719849600000 \<and>
   dayOfYear utc 1719849600000 = specDayOfYear utc 1719849600000"
proof -
  have b: "bank2 \<noteq> []"
    by (simp add: bank2_def)
  have y: "getFullYear newYork2024 1719849600000 < 0 \<or> 99 < getFullYear newYork2024 1719849600000"
    and v: "\<bar>jan0Midnight newYork2024 1719849600000\<bar> \<le> 8640000000000000"
    by (simp_all add: noon_year noon_start)
  have t: "transitions utc = []"
    by (simp add: utc_def)
  have y': "getFullYear utc 1719849600000 < 0 \<or> 99 < getFullYear utc 1719849600000"
    and v': "\<bar>jan0Midnight utc 1719849600000\<bar> \<le> 8640000000000000"
    by (simp_all add: utc_noon_year utc_noon_start)
  from C3_daily_selector_index [OF b noon_aligned y v]
    C3_daily_selector_index [OF b fixed_offset_aligned(1) [OF t] y' v']
    b noon_aligned y v fixed_offset_aligned [OF t, of 1719849600000]
  show ?thesis
    by (simp add: noon_code noon_shift noon_year msPerDay_def) (simp add: bank2_def)
qed

lemma half_past_midnight_date:
  "toDateString newYork2024 (Some 1719808200000) = ''Mon Jul 01 2024''"
  by code_simp

lemma morning_date:
  "toDateString newYork2024 (Some 1719835200000) = ''Mon Jul 01 2024''"
  by code_simp

lemma half_past_midnight_selected:
  "getDailyQuestion newYork2024 1719808200000 (Some bank2) = JSVal (sampleQuestion 1 ''A'')"
  by code_simp

lemma morning_selected:
  "getDailyQuestion newYork2024 1719835200000 (Some bank2) = JSVal (sampleQuestion 2 ''B'')"
  by code_simp

text \<open>
  C2 asks that two calls of the daily selector on the same local calendar day return
  the same question. The code does not do so where the offset of the zone changes
  during the year: in New York on Monday 2024-07-01, with a bank of two questions, the
  call at 00:30 local time returns the first question (day number 182, the number of
  the day before) and the call at 08:00 returns the second (day number 183).
\<close>

theorem C2_same_day_two_questions:
  "toDateString newYork2024 (Some 1719808200000) = ''Mon Jul 01 2024'' \<and>
   toDateString newYork2024 (Some 1719835200000) = ''Mon Jul 01 2024'' \<and>
   getDailyQuestion newYork2024 1719808200000 (Some bank2) = JSVal (sampleQuestion 1 ''A'') \<and>
   getDailyQuestion newYork2024 1719835200000 (Some bank2) = JSVal (sampleQuestion 2 ''B'') \<and>
   sampleQuestion 1 ''A'' \<noteq> sampleQuestion 2 ''B''"
  by (simp add: half_past_midnight_date morning_date half_past_midnight_selected morning_selected)
     (simp add: sampleQuestion_def)

text \<open>
  The first of the two instants is not aligned: at 00:30 the clock that keeps the offset
  of January 0 still shows the day before.
\<close>

lemma half_past_midnight_not_aligned: "\<not> dayAligned newYork2024 1719808200000"
  by code_simp

lemma morning_aligned: "dayAligned newYork2024 1719835200000"
  by code_simp

text \<open>
  At aligned instants, and so wherever the offset of the zone never changes, the day
  number is the same at all instants of one local calendar day.
\<close>

lemma aligned_same_day:
  assumes "dayAligned tz a" and "dayAligned tz b" and "localDate tz a = localDate tz b"
  shows "dayOfYear tz a = dayOfYear tz b"
proof -
  have "YearFromTime (LocalTime tz a) = YearFromTime (LocalTime tz b)"
    "MonthFromTime (LocalTime tz a) = MonthFromTime (LocalTime tz b)"
    "DateFromTime (LocalTime tz a) = DateFromTime (LocalTime tz b)"
    using assms(3) by (simp_all add: localDate_def Let_def)
  then have "Day (LocalTime tz a) = Day (LocalTime tz b)"
    "DayFromYear (YearFromTime (LocalTime tz a)) = DayFromYear (YearFromTime (LocalTime tz b))"
    using Day_from_date [of "LocalTime tz a"] Day_from_date [of "LocalTime tz b"] by simp_all
  then have "calendarDayOfYear tz a = calendarDayOfYear tz b"
    by (simp add: calendarDayOfYear_def DayWithinYear_def)
  moreover have "dayOfYear tz a = calendarDayOfYear tz a"
    using assms(1) by (simp add: dayOfYear_calendar_iff)
  moreover have "dayOfYear tz b = calendarDayOfYear tz b"
    using assms(2) by (simp add: dayOfYear_calendar_iff)
  ultimately show ?thesis by simp
qed

lemma fixed_offset_same_day:
  assumes "transitions tz = []" and "localDate tz a = localDate tz b"
  shows "dayOfYear tz a = dayOfYear tz b"
  using fixed_offset_aligned(1) [OF assms(1)] fixed_offset_aligned(1) [OF assms(1)] assms(2)
  by (rule aligned_same_day)

subsection \<open>The statistics update\<close>

lemma updateStats_inv: "stats_inv st \<Longrightarrow> stats_inv (updateStats b st)"
  by (simp add: stats_inv_def updateStats_def Let_def)

lemma playAll_inv: "stats_inv st \<Longrightarrow> stats_inv (playAll bs st)"
  by (induction bs arbitrary: st) (simp_all add: updateStats_inv)

lemma initialStats_inv: "stats_inv initialStats"
  by (simp add: stats_inv_def initialStats_def)

lemma handle_first:
  assumes "\<not> gameFinished (gameState s)" and "currentQuestion s = Some q"
  shows "handleAnswerSubmission now a s =
     (None, s\<lparr>gameState := \<lparr>gameFinished = True, lastPlayedTs = Some now, lastPlayedAnswer = a\<rparr>,
              userStats := updateStats (a = Some (answer q)) (userStats s),
              pendingFeedback := pendingFeedback s @ [a = Some (answer q)]\<rparr>)"
  using assms by (simp add: handleAnswerSubmission_def Let_def)

lemma handle_finished: "gameFinished (gameState s) \<Longrightarrow> handleAnswerSubmission now a s = (None, s)"
  by (simp add: handleAnswerSubmission_def)

lemma keydown_finished: "gameFinished (gameState s) \<Longrightarrow> keydown up now k s = (None, s)"
  by (simp add: keydown_def)

lemma optionsClick_finished: "gameFinished (gameState s) \<Longrightarrow> optionsClick now k s = (None, s)"
  by (simp add: optionsClick_def)

lemma shownPage_simps:
  "gameFinished (gameState (shownPage qs q)) = False"
  "currentQuestion (shownPage qs q) = Some q"
  "userStats (shownPage qs q) = initialStats"
  "questions (shownPage qs q) = Some qs"
  by (simp_all add: shownPage_def displayQuestion_def initialApp_def initialGameState_def)

text \<open>
  C4. A submission that finds the game of the day not finished (the first of the day)
  and a question on the page raises no exception and applies the statistics update
  once: \<open>gamesPlayed\<close> grows by exactly 1; if the submitted answer equals the question's
  recorded answer, \<open>wins\<close> and \<open>currentStreak\<close> grow by 1, otherwise \<open>wins\<close> stays and
  \<open>currentStreak\<close> becomes 0 whatever it was; afterwards \<open>maxStreak\<close> is the new
  \<open>currentStreak\<close> if that exceeds the stored \<open>maxStreak\<close>, and is unchanged otherwise.
\<close>

theorem C4_first_submission_updates_stats:
  assumes "\<not> gameFinished (gameState s)" and "currentQuestion s = Some q"
  shows "fst (handleAnswerSubmission now a s) = None \<and>
     userStats (snd (handleAnswerSubmission now a s)) =
       updateStats (a = Some (answer q)) (userStats s) \<and>
     gamesPlayed (userStats (snd (handleAnswerSubmission now a s))) = gamesPlayed (userStats s) + 1 \<and>
     (a = Some (answer q) \<longrightarrow>
        wins (userStats (snd (handleAnswerSubmission now a s))) = wins (userStats s) + 1 \<and>
        currentStreak (userStats (snd (handleAnswerSubmission now a s))) =
          currentStreak (userStats s) + 1) \<and>
     (a \<noteq> Some (answer q) \<longrightarrow>
        wins (userStats (snd (handleAnswerSubmission now a s))) = wins (userStats s) \<and>
        currentStreak (userStats (snd (handleAnswerSubmission now a s))) = 0) \<and>
     maxStreak (userStats (snd (handleAnswerSubmission now a s))) =
       (if currentStreak (userStats (snd (handleAnswerSubmission now a s))) > maxStreak (userStats s)
        then currentStreak (userStats (snd (handleAnswerSubmission now a s)))
        else maxStreak (userStats s))"
  using assms by (simp add: handle_first updateStats_def Let_def)

text \<open>
  Scenario A of the specification: the bank has one question with answer B, the user
  submits B; afterwards \<open>gamesPlayed\<close>, \<open>wins\<close> and \<open>currentStreak\<close> are 1. With the
  answer A instead, only \<open>gamesPlayed\<close> is 1.
\<close>

theorem C4_first_submission_updates_stats_witness:
  "\<not> gameFinished (gameState (shownPage [sampleQuestion 1 ''B''] (sampleQuestion 1 ''B''))) \<and>
   currentQuestion (shownPage [sampleQuestion 1 ''B''] (sampleQuestion 1 ''B'')) =
     Some (sampleQuestion 1 ''B'') \<and>
   userStats (snd (handleAnswerSubmission 7 (Some ''B'')
       (shownPage [sampleQuestion 1 ''B''] (sampleQuestion 1 ''B'')))) =
     \<lparr>gamesPlayed = 1, wins = 1, currentStreak = 1, maxStreak = 1\<rparr> \<and>
   userStats (snd (handleAnswerSubmission 7 (Some ''A'')
       (shownPage [sampleQuestion 1 ''B''] (sampleQuestion 1 ''B'')))) =
     \<lparr>gamesPlayed = 1, wins = 0, currentStreak = 0, maxStreak = 0\<rparr>"
proof -
  have h1: "\<not> gameFinished (gameState (shownPage [sampleQuestion 1 ''B''] (sampleQuestion 1 ''B'')))"
    and h2: "currentQuestion (shownPage [sampleQuestion 1 ''B''] (sampleQuestion 1 ''B'')) =
       Some (sampleQuestion 1 ''B'')"
    by (simp_all add: shownPage_simps)
  from C4_first_submission_updates_stats [OF h1 h2, of 7 "Some ''B''"]
    C4_first_submission_updates_stats [OF h1 h2, of 7 "Some ''A''"] h1 h2
  show ?thesis
    by (simp add: shownPage_simps sampleQuestion_def updateStats_def initialStats_def)
qed

text \<open>
  C5. A statistics record with \<open>gamesPlayed \<ge> 0\<close>, \<open>0 \<le> wins \<le> gamesPlayed\<close>,
  \<open>currentStreak \<ge> 0\<close> and \<open>maxStreak \<ge> currentStreak\<close> is taken by the statistics
  update, for a correct and for an incorrect answer, to a record with
  \<open>wins \<le> gamesPlayed\<close> and \<open>maxStreak \<ge> currentStreak\<close> (and the counters still not
  negative); so the inequalities hold after every sequence of submissions that starts
  from the all-zero defaults.
\<close>

theorem C5_stats_invariant:
  "(stats_inv st \<longrightarrow>
      stats_inv (updateStats b st) \<and>
      wins (updateStats b st) \<le> gamesPlayed (updateStats b st) \<and>
      currentStreak (updateStats b st) \<le> maxStreak (updateStats b st)) \<and>
   stats_inv (playAll bs initialStats) \<and>
   wins (playAll bs initialStats) \<le> gamesPlayed (playAll bs initialStats) \<and>
   currentStreak (playAll bs initialStats) \<le> maxStreak (playAll bs initialStats)"
proof -
  have step: "stats_inv (updateStats b st)" if "stats_inv st"
    using that by (rule updateStats_inv)
  have run: "stats_inv (playAll bs initialStats)"
    by (rule playAll_inv [OF initialStats_inv])
  show ?thesis
    using step run by (auto simp: stats_inv_def)
qed

theorem C5_stats_invariant_witness:
  "stats_inv \<lparr>gamesPlayed = 3, wins = 2, currentStreak = 1, maxStreak = 2\<rparr> \<and>
   stats_inv (updateStats False \<lparr>gamesPlayed = 3, wins = 2, currentStreak = 1, maxStreak = 2\<rparr>) \<and>
   maxStreak (playAll [True, True, False, True] initialStats) = 2"
proof -
  have h: "stats_inv \<lparr>gamesPlayed = 3, wins = 2, currentStreak = 1, maxStreak = 2\<rparr>"
    by (simp add: stats_inv_def)
  have m: "maxStreak (playAll [True, True, False, True] initialStats) = 2"
    by (simp add: updateStats_def initialStats_def Let_def)
  from C5_stats_invariant [of "\<lparr>gamesPlayed = 3, wins = 2, currentStreak = 1, maxStreak = 2\<rparr>" False "[]"]
  show ?thesis using h m by blast
qed

subsection \<open>Submissions after the game is finished\<close>

lemma replay_s1_eq:
  "gameState replay_s1 =
     \<lparr>gameFinished = True, lastPlayedTs = Some 1719835200000, lastPlayedAnswer = Some ''B''\<rparr>"
  "userStats replay_s1 = \<lparr>gamesPlayed = 1, wins = 1, currentStreak = 1, maxStreak = 1\<rparr>"
  "questions replay_s1 = Some [sampleQuestion 1 ''B'', sampleQuestion 2 ''C'']"
  by (simp_all add: replay_s1_def keydown_def Let_def shownPage_simps asciiUpperCase_def upperChar_def
       handle_first sampleQuestion_def updateStats_def initialStats_def)

lemma replay_s2_eq:
  "gameFinished (gameState replay_s2) = False"
  "userStats replay_s2 = \<lparr>gamesPlayed = 1, wins = 1, currentStreak = 1, maxStreak = 1\<rparr>"
  "currentQuestion replay_s2 = Some (sampleQuestion 2 ''C'')"
  by (simp_all add: replay_s2_def setDailyQuestionClick_def Let_def replay_s1_eq sampleQuestion_def
       displayQuestion_def)

lemma replay_s3_eq:
  "gameState replay_s3 =
     \<lparr>gameFinished = True, lastPlayedTs = Some 1719835260000, lastPlayedAnswer = Some ''A''\<rparr>"
  "userStats replay_s3 = \<lparr>gamesPlayed = 2, wins = 1, currentStreak = 0, maxStreak = 1\<rparr>"
  by (simp_all add: replay_s3_def keydown_def Let_def replay_s2_eq asciiUpperCase_def upperChar_def
       handle_first sampleQuestion_def updateStats_def)

lemma replay_same_day:
  "toDateString utc (Some 1719835200000) = toDateString utc (Some 1719835260000)"
  by code_simp

text \<open>
  C9, as stated, fails: the session state is not mutated exactly once per day. In one
  session on one day, after the first submission has finished the game, the admin
  panel's choice of a daily question clears the finished flag, and the next key press
  is a second submission that rewrites the session state and counts a second game.
\<close>

theorem C9_counterexample:
  "gameFinished (gameState replay_s1) \<and>
   toDateString utc (Some 1719835200000) = toDateString utc (Some 1719835260000) \<and>
   gameState replay_s3 \<noteq> gameState replay_s1 \<and>
   gamesPlayed (userStats replay_s3) = gamesPlayed (userStats replay_s1) + 1"
  using replay_same_day by (simp add: replay_s1_eq replay_s3_eq)

text \<open>
  C9, amended. While the game of the day is marked finished, a call of the
  answer-submission handler, directly or through the click listener or the key
  listener, is a no-op: it returns at once, throws nothing, and leaves the whole state
  of the page, the session state and the statistics among it, unchanged.
\<close>

theorem C9_finished_submission_is_noop:
  assumes "gameFinished (gameState s)"
  shows "handleAnswerSubmission now a s = (None, s) \<and>
         optionsClick now selectedOption s = (None, s) \<and>
         keydown toUpperCase now eventKey s = (None, s)"
  using assms by (simp add: handle_finished keydown_finished optionsClick_finished)

theorem C9_finished_submission_is_noop_witness:
  "gameFinished (gameState replay_s1) \<and>
   handleAnswerSubmission 1719835260000 (Some ''A'') replay_s1 = (None, replay_s1) \<and>
   keydown asciiUpperCase 1719835260000 ''a'' replay_s1 = (None, replay_s1)"
proof -
  have h: "gameFinished (gameState replay_s1)"
    by (simp add: replay_s1_eq)
  from C9_finished_submission_is_noop [OF h, of 1719835260000 "Some ''A''" None asciiUpperCase "''a''"] h
  show ?thesis by simp
qed

subsection \<open>The admin form\<close>

lemma fold_max_Max: "fold max is (i::int) = Max (set (i # is))"
  by (rule Max.set_eq_fold [symmetric])

lemma newId_code: "(case map id_q qs of [] \<Rightarrow> 1 | i # is \<Rightarrow> fold max is i + 1) = newId qs"
  by (cases qs) (simp_all add: newId_def fold_max_Max)

text \<open>
  C6, as stated, fails: the form is accepted with an answer that is not one of the
  letters A to D. With the stem and the four options filled in and the answer
  \<^verbatim>\<open>z\<close>, the question is appended to the store with the answer \<^verbatim>\<open>Z\<close>.
\<close>

theorem C6_counterexample:
  "questions (snd (addQuestionClick asciiUpperCase (sampleForm ''z'')
       (shownPage [sampleQuestion 4 ''B''] (sampleQuestion 4 ''B'')))) =
     Some [sampleQuestion 4 ''B'', questionOfForm asciiUpperCase 5 (sampleForm ''z'')] \<and>
   answer (questionOfForm asciiUpperCase 5 (sampleForm ''z'')) = ''Z'' \<and>
   \<not> validAnswerLetter (answer (questionOfForm asciiUpperCase 5 (sampleForm ''z'')))"
  by (simp add: addQuestionClick_def shownPage_simps sampleForm_def sampleQuestion_def
      questionOfForm_def validAnswerLetter_def asciiUpperCase_def upperChar_def)

text \<open>
  C6, amended. Over a loaded store, and whatever the platform's \<^verbatim>\<open>toUpperCase\<close> does to
  the answer, the add-question operation accepts exactly when the stem, the four option
  texts and the upper-cased answer are all non-empty; the answer is stored as
  \<^verbatim>\<open>toUpperCase\<close> returns it and is not checked to be one of the letters A to D. An
  accepted question is appended with the id \<open>max existing id + 1\<close>, or 1 if the store is
  empty. Otherwise the operation shows the validation message and leaves the store
  unchanged.
\<close>

theorem C6_add_question:
  assumes "questions s = Some qs"
  shows "(formComplete toUpperCase form \<longrightarrow>
            addQuestionClick toUpperCase form s =
              (None, s\<lparr>questions := Some (qs @ [questionOfForm toUpperCase (newId qs) form])\<rparr>)) \<and>
         (\<not> formComplete toUpperCase form \<longrightarrow>
            addQuestionClick toUpperCase form s =
              (None, s\<lparr>alerts := alerts s @ [''Please fill out all fields for the new question.'']\<rparr>) \<and>
            questions (snd (addQuestionClick toUpperCase form s)) = questions s)"
  using assms
  by (simp add: addQuestionClick_def newId_code Let_def formComplete_def questionOfForm_def)

theorem C6_add_question_witness:
  "questions (shownPage [sampleQuestion 4 ''B''] (sampleQuestion 4 ''B'')) = Some [sampleQuestion 4 ''B''] \<and>
   formComplete asciiUpperCase (sampleForm ''c'') \<and> \<not> formComplete asciiUpperCase (sampleForm []) \<and>
   id_q (last (the (questions (snd (addQuestionClick asciiUpperCase (sampleForm ''c'')
       (shownPage [sampleQuestion 4 ''B''] (sampleQuestion 4 ''B''))))))) = 5 \<and>
   questions (snd (addQuestionClick asciiUpperCase (sampleForm [])
       (shownPage [sampleQuestion 4 ''B''] (sampleQuestion 4 ''B'')))) = Some [sampleQuestion 4 ''B'']"
proof -
  have h: "questions (shownPage [sampleQuestion 4 ''B''] (sampleQuestion 4 ''B'')) =
      Some [sampleQuestion 4 ''B'']"
    by (simp add: shownPage_simps)
  have c: "formComplete asciiUpperCase (sampleForm ''c'')"
    and n: "\<not> formComplete asciiUpperCase (sampleForm [])"
    by (simp_all add: formComplete_def sampleForm_def asciiUpperCase_def)
  have i: "newId [sampleQuestion 4 ''B''] = 5"
    by (simp add: newId_def sampleQuestion_def)
  from C6_add_question [OF h, of asciiUpperCase "sampleForm ''c''"]
    C6_add_question [OF h, of asciiUpperCase "sampleForm []"] h c n i
  show ?thesis by (simp add: questionOfForm_def)
qed

subsection \<open>An empty bank\<close>

lemma restore_questionStem: "questionStem (snd (restoreGameState now s)) = questionStem s"
  by (simp add: restoreGameState_def handleAnswerSubmission_def Let_def split: option.split)

text \<open>
  C8. For a bank that is not loaded or is empty, the daily selector returns
  \<^verbatim>\<open>null\<close> and throws nothing, and the page shows the fallback message
  \<^verbatim>\<open>No question available for today.\<close>: \<^verbatim>\<open>displayQuestion\<close> writes it for the null
  result, and it is the text of the question when the initialization is over, whether
  the fetch failed, the document had no list of questions, or the list was empty.
\<close>

theorem C8_empty_bank_null_and_fallback:
  "getDailyQuestion tz now None = JSNull \<and>
   getDailyQuestion tz now (Some []) = JSNull \<and>
   displayQuestion JSNull s = s\<lparr>questionStem := ''No question available for today.''\<rparr> \<and>
   questionStem (snd (init tz tLoad FetchFailed adminParam tSelect tRestore st)) =
        ''No question available for today.'' \<and>
   questionStem (snd (init tz tLoad (Fetched None) adminParam tSelect tRestore st)) =
        ''No question available for today.'' \<and>
   questionStem (snd (init tz tLoad (Fetched (Some [])) adminParam tSelect tRestore st)) =
        ''No question available for today.''"
  by (simp add: getDailyQuestion_def displayQuestion_def init_def fetchQuestions_def Let_def
      restore_questionStem)

subsection \<open>The shared day number\<close>

lemma shareClick_text:
  assumes "gameFinished (gameState s)" and "currentQuestion s = Some q"
  shows "shareClick tz now s =
     (None, s\<lparr>clipboard := Some (''OATdle #'' @
        (case dayOfYearNumber tz now of None \<Rightarrow> ''NaN'' | Some d \<Rightarrow> numberToString d) @
        [CHR 0x0A] @
        (if lastPlayedAnswer (gameState s) = Some (answer q)
         then [CHR 0xE2, CHR 0x9C, CHR 0x85] else [CHR 0xE2, CHR 0x9D, CHR 0x8C]))\<rparr>)"
  using assms
  by (simp add: shareClick_def dayOfYearNumber_def Let_def split: option.split)

text \<open>
  C10. For any instant \<open>now\<close>, the day number that the share listener puts into the
  shared text is the number from which the daily selector, called at the same instant,
  derives its index: both are \<open>dayOfYearNumber tz now\<close>. The shared text is
  \<^verbatim>\<open>OATdle #\<close> followed by that number, a line break and the glyph of the outcome;
  the selected question is the one at index \<open>number % N\<close>.
\<close>

theorem C10_share_number_is_selector_day:
  assumes "gameFinished (gameState s)" and "currentQuestion s = Some q" and "qs \<noteq> []"
  shows "clipboard (snd (shareClick tz now s)) =
           Some (''OATdle #'' @
             (case dayOfYearNumber tz now of None \<Rightarrow> ''NaN'' | Some d \<Rightarrow> numberToString d) @
             [CHR 0x0A] @
             (if lastPlayedAnswer (gameState s) = Some (answer q)
              then [CHR 0xE2, CHR 0x9C, CHR 0x85] else [CHR 0xE2, CHR 0x9D, CHR 0x8C])) \<and>
         getDailyQuestion tz now (Some qs) =
           (case dayOfYearNumber tz now of
              None \<Rightarrow> JSUndefined
            | Some d \<Rightarrow> js_index qs (js_rem d (int (length qs))))"
  using assms by (simp add: shareClick_text getDailyQuestion_number)

lemma sharedPage_eq:
  "gameFinished (gameState sharedPage)"
  "currentQuestion sharedPage = Some (sampleQuestion 2 ''B'')"
  "lastPlayedAnswer (gameState sharedPage) = Some ''B''"
  by (simp_all add: sharedPage_def handle_first shownPage_simps)

lemma noon_number: "dayOfYearNumber newYork2024 1719849600000 = Some 183"
  by code_simp

lemma text_183: "numberToString 183 = ''183''"
  by code_simp

theorem C10_share_number_is_selector_day_witness:
  "gameFinished (gameState sharedPage) \<and> currentQuestion sharedPage = Some (sampleQuestion 2 ''B'') \<and>
   bank2 \<noteq> [] \<and>
   clipboard (snd (shareClick newYork2024 1719849600000 sharedPage)) =
     Some (''OATdle #183'' @ [CHR 0x0A, CHR 0xE2, CHR 0x9C, CHR 0x85]) \<and>
   getDailyQuestion newYork2024 1719849600000 (Some bank2) = js_index bank2 (js_rem 183 2)"
proof -
  have b: "bank2 \<noteq> []" and l: "int (length bank2) = 2"
    by (simp_all add: bank2_def)
  from C10_share_number_is_selector_day [OF sharedPage_eq(1) sharedPage_eq(2) b, of newYork2024 1719849600000]
    sharedPage_eq b
  show ?thesis
    by (simp add: noon_number text_183 l) (simp add: sampleQuestion_def)
qed

subsection \<open>Reloading the page\<close>

text \<open>
  The replay on reload applies the statistics update once more, to whatever statistics
  the page has loaded.
\<close>

lemma restore_replays_update:
  assumes "gameFinished (gameState s)" and "currentQuestion s = Some q"
  shows "userStats (snd (restoreGameState now s)) =
           updateStats (lastPlayedAnswer (gameState s) = Some (answer q)) (userStats s) \<and>
         gamesPlayed (userStats (snd (restoreGameState now s))) = gamesPlayed (userStats s) + 1"
  using assms by (simp add: restoreGameState_def handle_first updateStats_def Let_def)

lemma reload_first_game:
  "oatdleStats (localStorage reload_a2) =
     Some \<lparr>gamesPlayed = 1, wins = 1, currentStreak = 1, maxStreak = 1\<rparr>"
  by code_simp

lemma reload_stored_state:
  "oatdleGameState (localStorage reload_a2) =
     Some \<lparr>gameFinished = True, lastPlayedTs = Some 1719835260000, lastPlayedAnswer = Some ''B''\<rparr>"
  by code_simp

lemma reload_same_day:
  "toDateString utc (Some 1719835260000) = toDateString utc (Some 1719838800000)"
  by code_simp

lemma reload_in_memory:
  "userStats reload_b0 = \<lparr>gamesPlayed = 2, wins = 2, currentStreak = 2, maxStreak = 2\<rparr>"
  by code_simp

lemma reload_stored:
  "oatdleStats (localStorage reload_b1) =
     Some \<lparr>gamesPlayed = 2, wins = 2, currentStreak = 2, maxStreak = 2\<rparr>"
  by code_simp

text \<open>
  C1 asks that a reload on the day of the submission leaves the statistics unchanged.
  The code does not do so: the replay on reload goes through
  \<^verbatim>\<open>handleAnswerSubmission\<close>, which updates the statistics again. After one won game
  the storage holds \<open>gamesPlayed = 1\<close>; the page loaded again an hour later on the same
  day has \<open>gamesPlayed = 2\<close> in memory at once and in the storage when the feedback
  callback of the replay has fired.
\<close>

theorem C1_reload_counts_the_game_again:
  "oatdleStats (localStorage reload_a2) =
     Some \<lparr>gamesPlayed = 1, wins = 1, currentStreak = 1, maxStreak = 1\<rparr> \<and>
   oatdleGameState (localStorage reload_a2) =
     Some \<lparr>gameFinished = True, lastPlayedTs = Some 1719835260000, lastPlayedAnswer = Some ''B''\<rparr> \<and>
   toDateString utc (Some 1719835260000) = toDateString utc (Some 1719838800000) \<and>
   userStats reload_b0 = \<lparr>gamesPlayed = 2, wins = 2, currentStreak = 2, maxStreak = 2\<rparr> \<and>
   oatdleStats (localStorage reload_b1) =
     Some \<lparr>gamesPlayed = 2, wins = 2, currentStreak = 2, maxStreak = 2\<rparr>"
  using reload_first_game reload_stored_state reload_same_day reload_in_memory reload_stored
  by simp

end
